theory Spec2Isabelle
  imports Complex_Main "HOL-Library.Product_Lexorder" "HOL-Library.Multiset"
begin

section \<open>Data model\<close>

text \<open>
  The enum of the migration, \<^verbatim>\<open>CREATE TYPE "TaskStatus" AS ENUM ('TODO', 'IN_PROGRESS', 'DONE')\<close>,
  and the table \<^verbatim>\<open>Todo\<close> of the Prisma schema:
  \<^verbatim>\<open>id Int @id @default(autoincrement())\<close>, \<^verbatim>\<open>title String\<close>, \<^verbatim>\<open>description String?\<close>,
  \<^verbatim>\<open>status TaskStatus @default(TODO)\<close>, \<^verbatim>\<open>position Int @default(0)\<close>,
  \<^verbatim>\<open>createdAt DateTime @default(now())\<close>, \<^verbatim>\<open>updatedAt DateTime @updatedAt\<close>.
  A \<^verbatim>\<open>DateTime\<close> is a number of milliseconds; the field \<^verbatim>\<open>id\<close> is called \<open>todo_id\<close> here.
\<close>

datatype TaskStatus = TODO | IN_PROGRESS | DONE

type_synonym DateTime = nat

record Todo =
  todo_id :: int
  title :: string
  description :: "string option"
  status :: TaskStatus
  position :: int
  createdAt :: DateTime
  updatedAt :: DateTime

text \<open>
  The labels of the enum in the order of their declaration, which is the order an
  \<^verbatim>\<open>ORDER BY\<close> on the enum column follows.
\<close>

definition TaskStatus_labels :: "string list" where
  "TaskStatus_labels = [''TODO'', ''IN_PROGRESS'', ''DONE'']"

fun TaskStatus_rank :: "TaskStatus \<Rightarrow> nat" where
  "TaskStatus_rank TODO = 0"
| "TaskStatus_rank IN_PROGRESS = 1"
| "TaskStatus_rank DONE = 2"

definition TaskStatus_of_label :: "string \<Rightarrow> TaskStatus option" where
  "TaskStatus_of_label l =
     (if l = ''TODO'' then Some TODO
      else if l = ''IN_PROGRESS'' then Some IN_PROGRESS
      else if l = ''DONE'' then Some DONE
      else None)"

text \<open>
  The range of an \<^verbatim>\<open>INTEGER\<close> column: 32 bits, signed; and the range of the
  integers a query of the client can hold at all: 64 bits, signed.
\<close>

definition int4 :: "int \<Rightarrow> bool" where
  "int4 n \<longleftrightarrow> - (2 ^ 31) \<le> n \<and> n < 2 ^ 31"

definition int8 :: "int \<Rightarrow> bool" where
  "int8 n \<longleftrightarrow> - (2 ^ 63) \<le> n \<and> n < 2 ^ 63"

text \<open>A \<^verbatim>\<open>TEXT\<close> column holds any text but one with the character of code 0.\<close>

definition storable_text :: "string \<Rightarrow> bool" where
  "storable_text s \<longleftrightarrow> CHR 0x00 \<notin> set s"

section \<open>Values of a request\<close>

text \<open>
  The body of a request after the framework has parsed it, and whatever the handlers
  read from it: a JSON value. A number is the finite number it denotes. An object is
  the list of its members; \<open>property_of\<close> reads one (\<open>None\<close> is \<^verbatim>\<open>undefined\<close>),
  and a name that is written twice has the value written last, as the parser of the
  body reads it. A string is the sequence of the characters of the text. The types the
  source writes for these values are erased when it runs.
\<close>

datatype json =
    JNull
  | JBool bool
  | JNumber rat
  | JString string
  | JArray "json list"
  | JObject "(string \<times> json) list"

definition property_of :: "(string \<times> json) list \<Rightarrow> string \<Rightarrow> json option" where
  "property_of props k = map_of (rev props) k"

definition is_integer :: "rat \<Rightarrow> bool" where
  "is_integer q \<longleftrightarrow> of_int \<lfloor>q\<rfloor> = q"

text \<open>
  The issues a schema raises, each with the path of the field (or the keys) it is about,
  and the exceptions of a request: the \<^verbatim>\<open>BadRequestException\<close> of the validation pipe
  with the issues that caused it, the \<^verbatim>\<open>TypeError\<close> of reading a property of
  \<^verbatim>\<open>null\<close>, and the errors of the persistence client. The known request error carries
  its code: \<^verbatim>\<open>P2025\<close>, a record the operation needs was not found; \<^verbatim>\<open>P2020\<close>,
  a value is out of range for its type. The unknown request error stands for a failure
  of the database that has no code of the client.
\<close>

datatype zod_issue =
    invalid_type string
  | too_small string
  | too_big string
  | invalid_value string
  | unrecognized_keys "string list"

datatype exn =
    BadRequestException "zod_issue list"
  | TypeError
  | PrismaClientValidationError
  | PrismaClientKnownRequestError string
  | PrismaClientUnknownRequestError

section \<open>The table and the persistence client\<close>

text \<open>
  The table is the list of its rows, with the sequence that feeds the
  \<^verbatim>\<open>autoincrement()\<close> primary key. Every operation takes the database and returns it,
  changed or not, beside its result; an exception is the \<open>Inl\<close> of the result.
\<close>

record database =
  rows :: "Todo list"
  next_id :: int

definition empty_database :: database where
  "empty_database = \<lparr>rows = [], next_id = 1\<rparr>"

text \<open>
  The integers of a query, checked before any row is read or written. The client
  refuses a query with an integer that does not fit 64 bits, as it refuses any argument
  that is not of the type the schema asks for; the database refuses an integer that
  does not fit the 32 bits of an \<^verbatim>\<open>INTEGER\<close> column, which the client reports as
  \<^verbatim>\<open>P2020\<close>.
\<close>

definition range_error :: "int list \<Rightarrow> exn option" where
  "range_error ns =
     (if \<not> list_all int8 ns then Some PrismaClientValidationError
      else if \<not> list_all int4 ns then Some (PrismaClientKnownRequestError ''P2020'')
      else None)"

text \<open>
  \<^verbatim>\<open>prisma.todo.create({ data: { title, description, status, position } })\<close>.
  A field that is \<^verbatim>\<open>undefined\<close> (\<open>None\<close>) takes the default of its column. The client
  checks the arguments against the schema before it sends a query: a status that is no
  label of the enum is refused with \<^verbatim>\<open>PrismaClientValidationError\<close>, and the position
  must be in range. The database refuses a title or a description
  it cannot store, and the insert fails once the sequence has left the range of the
  column. Otherwise the row gets the next value of the sequence and the current time in
  both timestamps. A create that fails leaves the table and the sequence as they were.
\<close>

definition prisma_todo_create ::
  "DateTime \<Rightarrow> string \<Rightarrow> string option \<Rightarrow> string option \<Rightarrow> int option \<Rightarrow> database
     \<Rightarrow> (exn + Todo) \<times> database" where
  "prisma_todo_create now t d st p db =
     (case (case st of None \<Rightarrow> Some TODO | Some l \<Rightarrow> TaskStatus_of_label l) of
        None \<Rightarrow> (Inl PrismaClientValidationError, db)
      | Some st' \<Rightarrow>
          (let p' = (case p of None \<Rightarrow> 0 | Some n \<Rightarrow> n) in
           case range_error [p'] of
             Some e \<Rightarrow> (Inl e, db)
           | None \<Rightarrow>
               if \<not> storable_text t \<or> \<not> (case d of None \<Rightarrow> True | Some x \<Rightarrow> storable_text x)
               then (Inl PrismaClientUnknownRequestError, db)
               else if \<not> int4 (next_id db) then (Inl PrismaClientUnknownRequestError, db)
               else
                 (let r = \<lparr>todo_id = next_id db, title = t, description = d, status = st',
                            position = p', createdAt = now, updatedAt = now\<rparr>
                  in (Inr r, db\<lparr>rows := rows db @ [r], next_id := next_id db + 1\<rparr>))))"

text \<open>
  \<^verbatim>\<open>prisma.todo.findMany({ orderBy: [{ status: 'asc' }, { position: 'asc' }] })\<close>:
  the rows ordered by the rank of the status, then by position. The query does not say
  in which order rows that agree on both are listed: that is the order in which the
  engine happens to deliver them, which is given here as a ranking \<open>tie\<close> of the rows.
  Nothing is written.
\<close>

definition order_key :: "Todo \<Rightarrow> nat \<times> int" where
  "order_key r = (TaskStatus_rank (status r), position r)"

definition prisma_todo_findMany :: "(Todo \<Rightarrow> nat) \<Rightarrow> database \<Rightarrow> Todo list \<times> database" where
  "prisma_todo_findMany tie db = (sort_key order_key (sort_key tie (rows db)), db)"

text \<open>
  What the \<^verbatim>\<open>data\<close> of an update may hold for a column. A field that is
  \<^verbatim>\<open>undefined\<close> leaves the column as it is. An enum column takes a label or
  \<^verbatim>\<open>{ set: label }\<close>; an \<^verbatim>\<open>Int\<close> column takes an integer or an object with exactly
  one of \<^verbatim>\<open>set\<close>, \<^verbatim>\<open>increment\<close>, \<^verbatim>\<open>decrement\<close>, \<^verbatim>\<open>multiply\<close> and \<^verbatim>\<open>divide\<close>
  and an integer. A value of another type is a \<^verbatim>\<open>PrismaClientValidationError\<close>.

  A number with a fractional part where an \<^verbatim>\<open>Int\<close> is asked for is the one case that
  this repository and its schema do not settle: what the client makes of it (an error,
  or the integer it sends in its place) is the argument \<open>fraction\<close> of the operations
  that read such a number. \<open>refuse_fraction\<close>, which takes it for a value of another
  type, and \<open>truncate_fraction\<close>, which cuts the fractional part off, are two such
  arguments.
\<close>

datatype int_op = SetInt int | Increment int | Decrement int | Multiply int | Divide int

fun label_input :: "json \<Rightarrow> exn + TaskStatus" where
  "label_input (JString l) =
     (case TaskStatus_of_label l of
        None \<Rightarrow> Inl PrismaClientValidationError
      | Some s \<Rightarrow> Inr s)"
| "label_input v = Inl PrismaClientValidationError"

type_synonym fraction = "rat \<Rightarrow> exn + int"

definition refuse_fraction :: fraction where
  "refuse_fraction q = Inl PrismaClientValidationError"

definition truncate_fraction :: fraction where
  "truncate_fraction q = Inr (if 0 \<le> q then \<lfloor>q\<rfloor> else \<lceil>q\<rceil>)"

fun int_input :: "fraction \<Rightarrow> json \<Rightarrow> exn + int" where
  "int_input fraction (JNumber q) = (if is_integer q then Inr \<lfloor>q\<rfloor> else fraction q)"
| "int_input fraction v = Inl PrismaClientValidationError"

definition int_op_of :: "string \<Rightarrow> int \<Rightarrow> exn + int_op" where
  "int_op_of k n =
     (if k = ''set'' then Inr (SetInt n)
      else if k = ''increment'' then Inr (Increment n)
      else if k = ''decrement'' then Inr (Decrement n)
      else if k = ''multiply'' then Inr (Multiply n)
      else if k = ''divide'' then Inr (Divide n)
      else Inl PrismaClientValidationError)"

fun enum_update_input :: "json option \<Rightarrow> exn + TaskStatus option" where
  "enum_update_input None = Inr None"
| "enum_update_input (Some (JObject props)) =
     (case (remdups (map fst props), property_of props ''set'') of
        ([k], Some v) \<Rightarrow> (case label_input v of Inl e \<Rightarrow> Inl e | Inr s \<Rightarrow> Inr (Some s))
      | _ \<Rightarrow> Inl PrismaClientValidationError)"
| "enum_update_input (Some v) = (case label_input v of Inl e \<Rightarrow> Inl e | Inr s \<Rightarrow> Inr (Some s))"

fun int_update_input :: "fraction \<Rightarrow> json option \<Rightarrow> exn + int_op option" where
  "int_update_input fraction None = Inr None"
| "int_update_input fraction (Some (JObject props)) =
     (case remdups (map fst props) of
        [k] \<Rightarrow>
          (case property_of props k of
             None \<Rightarrow> Inl PrismaClientValidationError
           | Some v \<Rightarrow>
               (case int_input fraction v of
                  Inl e \<Rightarrow> Inl e
                | Inr n \<Rightarrow> (case int_op_of k n of Inl e \<Rightarrow> Inl e | Inr c \<Rightarrow> Inr (Some c))))
      | _ \<Rightarrow> Inl PrismaClientValidationError)"
| "int_update_input fraction (Some v) =
     (case int_input fraction v of Inl e \<Rightarrow> Inl e | Inr n \<Rightarrow> Inr (Some (SetInt n)))"

fun operand :: "int_op \<Rightarrow> int" where
  "operand (SetInt n) = n"
| "operand (Increment n) = n"
| "operand (Decrement n) = n"
| "operand (Multiply n) = n"
| "operand (Divide n) = n"

text \<open>
  The new value of an \<^verbatim>\<open>Int\<close> column. The database computes it: the division of
  integers truncates towards zero and fails on a zero divisor.
\<close>

definition truncating_div :: "int \<Rightarrow> int \<Rightarrow> int" where
  "truncating_div a b = sgn a * sgn b * (\<bar>a\<bar> div \<bar>b\<bar>)"

fun apply_int_op :: "int_op \<Rightarrow> int \<Rightarrow> exn + int" where
  "apply_int_op (SetInt n) x = Inr n"
| "apply_int_op (Increment n) x = Inr (x + n)"
| "apply_int_op (Decrement n) x = Inr (x - n)"
| "apply_int_op (Multiply n) x = Inr (x * n)"
| "apply_int_op (Divide n) x =
     (if n = 0 then Inl PrismaClientUnknownRequestError else Inr (truncating_div x n))"

text \<open>
  The row an update writes in place of \<open>r\<close>: the columns the data names are overwritten,
  \<^verbatim>\<open>@updatedAt\<close> sets the current time, and a position that leaves the range of the
  column fails the update.
\<close>

definition updated_row :: "DateTime \<Rightarrow> TaskStatus option \<Rightarrow> int_op option \<Rightarrow> Todo \<Rightarrow> exn + Todo" where
  "updated_row now s c r =
     (case (case c of None \<Rightarrow> Inr (position r) | Some c' \<Rightarrow> apply_int_op c' (position r)) of
        Inl e \<Rightarrow> Inl e
      | Inr p \<Rightarrow>
          if \<not> int4 p then Inl (PrismaClientKnownRequestError ''P2020'')
          else Inr (r\<lparr>status := (case s of None \<Rightarrow> status r | Some s' \<Rightarrow> s'),
                     position := p, updatedAt := now\<rparr>))"

text \<open>
  The row a \<^verbatim>\<open>where: { id }\<close> selects, rewritten by \<open>f\<close> in place, and the same row
  taken out of the table. A \<^verbatim>\<open>where\<close> that selects no row raises the known request
  error \<^verbatim>\<open>P2025\<close>.
\<close>

fun update_where :: "int \<Rightarrow> (Todo \<Rightarrow> exn + Todo) \<Rightarrow> Todo list \<Rightarrow> exn + Todo \<times> Todo list" where
  "update_where i f [] = Inl (PrismaClientKnownRequestError ''P2025'')"
| "update_where i f (r # rs) =
     (if todo_id r = i
      then (case f r of Inl e \<Rightarrow> Inl e | Inr u \<Rightarrow> Inr (u, u # rs))
      else (case update_where i f rs of
              Inl e \<Rightarrow> Inl e
            | Inr (u, rs') \<Rightarrow> Inr (u, r # rs')))"

fun delete_where :: "int \<Rightarrow> Todo list \<Rightarrow> exn + Todo \<times> Todo list" where
  "delete_where i [] = Inl (PrismaClientKnownRequestError ''P2025'')"
| "delete_where i (r # rs) =
     (if todo_id r = i then Inr (r, rs)
      else (case delete_where i rs of
              Inl e \<Rightarrow> Inl e
            | Inr (u, rs') \<Rightarrow> Inr (u, r # rs')))"

text \<open>
  \<^verbatim>\<open>prisma.todo.update({ where: { id }, data: { status, position } })\<close>: the client
  checks the data against the schema, then the id and the operand must be in range,
  then the row is looked up and rewritten. An update that fails leaves the table as it
  was.
\<close>

definition prisma_todo_update ::
  "fraction \<Rightarrow> DateTime \<Rightarrow> int \<Rightarrow> json option \<Rightarrow> json option \<Rightarrow> database
     \<Rightarrow> (exn + Todo) \<times> database" where
  "prisma_todo_update fraction now i st p db =
     (case enum_update_input st of
        Inl e \<Rightarrow> (Inl e, db)
      | Inr s \<Rightarrow>
          (case int_update_input fraction p of
             Inl e \<Rightarrow> (Inl e, db)
           | Inr c \<Rightarrow>
               (case range_error (i # (case c of None \<Rightarrow> [] | Some c' \<Rightarrow> [operand c'])) of
                  Some e \<Rightarrow> (Inl e, db)
                | None \<Rightarrow>
                    (case update_where i (updated_row now s c) (rows db) of
                       Inl e \<Rightarrow> (Inl e, db)
                     | Inr (u, rs) \<Rightarrow> (Inr u, db\<lparr>rows := rs\<rparr>)))))"

text \<open>
  \<^verbatim>\<open>prisma.todo.delete({ where: { id } })\<close>: the id must be in range;
  \<^verbatim>\<open>P2025\<close> when no row has the id; otherwise the row is removed and returned.
\<close>

definition prisma_todo_delete :: "int \<Rightarrow> database \<Rightarrow> (exn + Todo) \<times> database" where
  "prisma_todo_delete i db =
     (case range_error [i] of
        Some e \<Rightarrow> (Inl e, db)
      | None \<Rightarrow>
          (case delete_where i (rows db) of
             Inl e \<Rightarrow> (Inl e, db)
           | Inr (u, rs) \<Rightarrow> (Inr u, db\<lparr>rows := rs\<rparr>)))"

section \<open>TodoService\<close>

text \<open>
  The data of a create request as the service receives it (class \<^verbatim>\<open>CreateTodoDto\<close>:
  \<^verbatim>\<open>title: string; description?: string; status?: ...; position?: number\<close>, the fields
  prefixed here with \<open>dto_\<close>). The status is the string that was sent. The arguments
  of \<^verbatim>\<open>updateStatus\<close> are the values the controller read from the body, whatever they
  are; the id is a number, taken here as an integer.
\<close>

record CreateTodoDto =
  dto_title :: string
  dto_description :: "string option"
  dto_status :: "string option"
  dto_position :: "int option"

definition TodoService_create :: "DateTime \<Rightarrow> CreateTodoDto \<Rightarrow> database \<Rightarrow> (exn + Todo) \<times> database" where
  "TodoService_create now data db =
     prisma_todo_create now (dto_title data) (dto_description data) (dto_status data)
       (dto_position data) db"

definition TodoService_findAll :: "(Todo \<Rightarrow> nat) \<Rightarrow> database \<Rightarrow> Todo list \<times> database" where
  "TodoService_findAll tie db = prisma_todo_findMany tie db"

definition TodoService_updateStatus ::
  "fraction \<Rightarrow> DateTime \<Rightarrow> int \<Rightarrow> json option \<Rightarrow> json option \<Rightarrow> database
     \<Rightarrow> (exn + Todo) \<times> database" where
  "TodoService_updateStatus fraction now i st p db = prisma_todo_update fraction now i st p db"

definition TodoService_remove :: "int \<Rightarrow> database \<Rightarrow> (exn + Todo) \<times> database" where
  "TodoService_remove i db = prisma_todo_delete i db"

section \<open>Request validation\<close>

text \<open>
  A schema reads the value found at a path and returns the parsed value or the issues
  it raises there. The schemas are those \<^verbatim>\<open>create-todo.dto.ts\<close> builds:
  \<^verbatim>\<open>z.string().min(n)\<close>, \<^verbatim>\<open>z.enum(labels)\<close>, \<^verbatim>\<open>z.number().int()\<close>
  (version 4 of the library, whose integers are the safe integers),
  \<^verbatim>\<open>.optional()\<close> and \<^verbatim>\<open>.default(d)\<close>.
\<close>

type_synonym 'a schema = "string \<Rightarrow> json option \<Rightarrow> zod_issue list + 'a"

definition z_string :: "string schema" where
  "z_string path v = (case v of Some (JString s) \<Rightarrow> Inr s | _ \<Rightarrow> Inl [invalid_type path])"

definition z_string_min :: "nat \<Rightarrow> string schema" where
  "z_string_min n path v =
     (case z_string path v of
        Inl e \<Rightarrow> Inl e
      | Inr s \<Rightarrow> if n \<le> length s then Inr s else Inl [too_small path])"

definition z_enum :: "string list \<Rightarrow> string schema" where
  "z_enum labels path v =
     (case v of
        Some (JString s) \<Rightarrow> if s \<in> set labels then Inr s else Inl [invalid_value path]
      | _ \<Rightarrow> Inl [invalid_value path])"

definition MAX_SAFE_INTEGER :: int where
  "MAX_SAFE_INTEGER = 2 ^ 53 - 1"

definition z_number_int :: "int schema" where
  "z_number_int path v =
     (case v of
        Some (JNumber q) \<Rightarrow>
          if \<not> is_integer q then Inl [invalid_type path]
          else if MAX_SAFE_INTEGER < \<lfloor>q\<rfloor> then Inl [too_big path]
          else if \<lfloor>q\<rfloor> < - MAX_SAFE_INTEGER then Inl [too_small path]
          else Inr \<lfloor>q\<rfloor>
      | _ \<Rightarrow> Inl [invalid_type path])"

definition z_optional :: "'a schema \<Rightarrow> 'a option schema" where
  "z_optional inner path v =
     (case v of
        None \<Rightarrow> Inr None
      | Some _ \<Rightarrow> (case inner path v of Inl e \<Rightarrow> Inl e | Inr x \<Rightarrow> Inr (Some x)))"

definition z_default :: "'a \<Rightarrow> 'a option schema \<Rightarrow> 'a schema" where
  "z_default d inner path v =
     (case v of
        None \<Rightarrow> Inr d
      | Some _ \<Rightarrow>
          (case inner path v of
             Inl e \<Rightarrow> Inl e
           | Inr None \<Rightarrow> Inr d
           | Inr (Some x) \<Rightarrow> Inr x))"

text \<open>The schema \<^verbatim>\<open>TaskStatus = z.enum(['TODO', 'IN_PROGRESS', 'DONE'])\<close> of the source.\<close>

definition TaskStatus_schema :: "string schema" where
  "TaskStatus_schema = z_enum [''TODO'', ''IN_PROGRESS'', ''DONE'']"

definition issues_of :: "zod_issue list + 'a \<Rightarrow> zod_issue list" where
  "issues_of r = (case r of Inl e \<Rightarrow> e | Inr _ \<Rightarrow> [])"

definition createTodoSchema_keys :: "string list" where
  "createTodoSchema_keys = [''title'', ''description'', ''status'', ''position'']"

text \<open>
  \<^verbatim>\<open>createTodoSchema = z.object({ title, description, status, position }).strict()\<close>.
  The value must be an object; every field is parsed and the issues of all of them are
  collected; \<^verbatim>\<open>strict()\<close> adds an issue that lists the keys the shape does not have.
  The parsed value always carries a position, the given one or the default.
\<close>

definition createTodoSchema :: "json \<Rightarrow> zod_issue list + CreateTodoDto" where
  "createTodoSchema v =
     (case v of
        JObject props \<Rightarrow>
          (let t = z_string_min 1 ''title'' (property_of props ''title'');
               d = z_optional z_string ''description'' (property_of props ''description'');
               s = z_optional TaskStatus_schema ''status'' (property_of props ''status'');
               p = z_default 0 (z_optional z_number_int) ''position'' (property_of props ''position'');
               extra = filter (\<lambda>k. k \<notin> set createTodoSchema_keys) (map fst props);
               issues = issues_of t @ issues_of d @ issues_of s @ issues_of p
                          @ (if extra = [] then [] else [unrecognized_keys extra])
           in (case (t, d, s, p) of
                 (Inr t', Inr d', Inr s', Inr p') \<Rightarrow>
                   if extra = []
                   then Inr \<lparr>dto_title = t', dto_description = d', dto_status = s',
                              dto_position = Some p'\<rparr>
                   else Inl issues
               | _ \<Rightarrow> Inl issues))
      | _ \<Rightarrow> Inl [invalid_type []])"

text \<open>
  \<^verbatim>\<open>ZodValidationPipe.transform\<close>: the parsed value, or a \<^verbatim>\<open>BadRequestException\<close>
  that carries the errors of the schema.
\<close>

definition ZodValidationPipe_transform :: "(json \<Rightarrow> zod_issue list + 'a) \<Rightarrow> json \<Rightarrow> exn + 'a" where
  "ZodValidationPipe_transform schema v =
     (case schema v of
        Inr parseValue \<Rightarrow> Inr parseValue
      | Inl errors \<Rightarrow> Inl (BadRequestException errors))"

section \<open>TodoController\<close>

text \<open>
  \<^verbatim>\<open>create\<close> runs the pipe on the body and calls the service with the parsed value; an
  exception of the pipe ends the request before the service is called. \<^verbatim>\<open>moveTask\<close>
  and \<^verbatim>\<open>remove\<close> have no pipe. \<^verbatim>\<open>moveTask\<close> reads \<^verbatim>\<open>updateData.status\<close> and
  \<^verbatim>\<open>updateData.position\<close> from whatever the body is and hands them to the service
  unchecked, with the number of the path parameter (\<^verbatim>\<open>+id\<close>, taken here as an
  integer). Reading a property of \<^verbatim>\<open>null\<close> throws; a value that is no object has
  neither property.
\<close>

definition TodoController_create :: "DateTime \<Rightarrow> json \<Rightarrow> database \<Rightarrow> (exn + Todo) \<times> database" where
  "TodoController_create now body db =
     (case ZodValidationPipe_transform createTodoSchema body of
        Inl e \<Rightarrow> (Inl e, db)
      | Inr createTodoDto \<Rightarrow> TodoService_create now createTodoDto db)"

definition TodoController_findAll :: "(Todo \<Rightarrow> nat) \<Rightarrow> database \<Rightarrow> Todo list \<times> database" where
  "TodoController_findAll tie db = TodoService_findAll tie db"

fun property :: "json \<Rightarrow> string \<Rightarrow> exn + json option" where
  "property JNull k = Inl TypeError"
| "property (JObject props) k = Inr (property_of props k)"
| "property v k = Inr None"

definition TodoController_moveTask ::
  "fraction \<Rightarrow> DateTime \<Rightarrow> int \<Rightarrow> json \<Rightarrow> database \<Rightarrow> (exn + Todo) \<times> database" where
  "TodoController_moveTask fraction now i updateData db =
     (case property updateData ''status'' of
        Inl e \<Rightarrow> (Inl e, db)
      | Inr st \<Rightarrow>
          (case property updateData ''position'' of
             Inl e \<Rightarrow> (Inl e, db)
           | Inr p \<Rightarrow> TodoService_updateStatus fraction now i st p db))"

definition TodoController_remove :: "int \<Rightarrow> database \<Rightarrow> (exn + Todo) \<times> database" where
  "TodoController_remove i db = TodoService_remove i db"

section \<open>TransformInterceptor\<close>

text \<open>
  What a handler produces is an observable: the values it emits, each with the clock
  reading at that moment, and the exception that ends it, if any. \<^verbatim>\<open>map\<close> rewrites
  the values and passes the exception on. The interceptor wraps every value in an
  envelope whose timestamp is the clock reading (its rendering as an ISO string is left
  out).
\<close>

record 'a observable =
  emitted :: "(DateTime \<times> 'a) list"
  failure :: "exn option"

record 'a Response =
  success :: bool
  data :: 'a
  timestamp :: DateTime

definition rx_map :: "(DateTime \<Rightarrow> 'a \<Rightarrow> 'b) \<Rightarrow> 'a observable \<Rightarrow> 'b observable" where
  "rx_map f obs = \<lparr>emitted = map (\<lambda>(t, x). (t, f t x)) (emitted obs), failure = failure obs\<rparr>"

definition TransformInterceptor_intercept :: "'a observable \<Rightarrow> 'a Response observable" where
  "TransformInterceptor_intercept next_handle =
     rx_map (\<lambda>t d. \<lparr>success = True, data = d, timestamp = t\<rparr>) next_handle"

section \<open>Sequences of requests\<close>

text \<open>
  A history is a list of requests, each with the time it is served at; a listing comes
  with the order the engine delivers ties in. \<open>created_ids\<close> lists the ids of the rows
  that the create requests of a history return, in order.
\<close>

datatype request =
    Create json
  | FindAll "Todo \<Rightarrow> nat"
  | MoveTask int json
  | Remove int

datatype response =
    Row "exn + Todo"
  | Rows "Todo list"

fun handle :: "fraction \<Rightarrow> DateTime \<Rightarrow> request \<Rightarrow> database \<Rightarrow> response \<times> database" where
  "handle fraction now (Create body) db =
     (case TodoController_create now body db of (r, db') \<Rightarrow> (Row r, db'))"
| "handle fraction now (FindAll tie) db =
     (case TodoController_findAll tie db of (rs, db') \<Rightarrow> (Rows rs, db'))"
| "handle fraction now (MoveTask i body) db =
     (case TodoController_moveTask fraction now i body db of (r, db') \<Rightarrow> (Row r, db'))"
| "handle fraction now (Remove i) db =
     (case TodoController_remove i db of (r, db') \<Rightarrow> (Row r, db'))"

fun created_id :: "request \<Rightarrow> response \<Rightarrow> int list" where
  "created_id (Create body) (Row (Inr r)) = [todo_id r]"
| "created_id rq resp = []"

fun created_ids :: "fraction \<Rightarrow> (DateTime \<times> request) list \<Rightarrow> database \<Rightarrow> int list" where
  "created_ids fraction [] db = []"
| "created_ids fraction ((now, rq) # rest) db =
     (case handle fraction now rq db of
        (resp, db') \<Rightarrow> created_id rq resp @ created_ids fraction rest db')"

fun serve :: "fraction \<Rightarrow> (DateTime \<times> request) list \<Rightarrow> database \<Rightarrow> database" where
  "serve fraction [] db = db"
| "serve fraction ((now, rq) # rest) db = serve fraction rest (snd (handle fraction now rq db))"

text \<open>The primary key: no two rows share an id, and the sequence is ahead of all of them.\<close>

definition primary_key :: "database \<Rightarrow> bool" where
  "primary_key db \<longleftrightarrow>
     distinct (map todo_id (rows db)) \<and> list_all (\<lambda>i. i < next_id db) (map todo_id (rows db))"

section \<open>An example\<close>

text \<open>
  A board of three rows: one in progress, then two that are still to do, the later of
  them at the top of its column. The history is the scenario of a board that starts
  empty: two tasks are created, the first is moved, the second removed, a request with
  an empty title is refused, and a third task is created.
\<close>

definition example_board :: database where
  "example_board =
     \<lparr>rows =
        [\<lparr>todo_id = 1, title = ''Write spec'', description = None, status = IN_PROGRESS,
          position = 0, createdAt = 10, updatedAt = 30\<rparr>,
         \<lparr>todo_id = 2, title = ''Review'', description = Some ''second pass'', status = TODO,
          position = 1, createdAt = 20, updatedAt = 20\<rparr>,
         \<lparr>todo_id = 3, title = ''Ship'', description = None, status = TODO,
          position = 0, createdAt = 25, updatedAt = 25\<rparr>],
      next_id = 4\<rparr>"

definition example_history :: "(DateTime \<times> request) list" where
  "example_history =
     [(10, Create (JObject [(''title'', JString ''Write spec'')])),
      (20, Create (JObject [(''title'', JString ''Review''), (''status'', JString ''TODO''),
                           (''position'', JNumber 1)])),
      (30, MoveTask 1 (JObject [(''status'', JString ''IN_PROGRESS''), (''position'', JNumber 0)])),
      (40, Remove 2),
      (50, Create (JObject [(''title'', JString '''')])),
      (60, Create (JObject [(''title'', JString ''Ship'')]))]"

section \<open>Rows selected by id\<close>

lemma TaskStatus_of_label_None_iff:
  "TaskStatus_of_label l = None \<longleftrightarrow> l \<notin> set TaskStatus_labels"
  by (simp add: TaskStatus_of_label_def TaskStatus_labels_def)

lemma property_of_Nil [simp]: "property_of [] k = None"
  by (simp add: property_of_def)

lemma property_of_Cons [simp]:
  "property_of ((k', v) # props) k =
     (case property_of props k of
        Some w \<Rightarrow> Some w
      | None \<Rightarrow> if k' = k then Some v else None)"
  by (auto simp: property_of_def map_add_def split: option.splits)

lemma range_error_None_iff: "range_error ns = None \<longleftrightarrow> list_all int4 ns"
  by (auto simp: range_error_def int4_def int8_def list_all_iff)

lemma range_error_Some:
  "range_error ns = Some e \<Longrightarrow>
     \<not> list_all int4 ns
     \<and> (e = PrismaClientKnownRequestError ''P2020'' \<or> e = PrismaClientValidationError)"
  using range_error_None_iff [of ns] by (auto simp: range_error_def split: if_splits)

lemma range_error_single [simp]: "int4 n \<Longrightarrow> range_error [n] = None"
  by (simp add: range_error_None_iff)

lemma range_error_pair [simp]: "int4 m \<Longrightarrow> int4 n \<Longrightarrow> range_error [m, n] = None"
  by (simp add: range_error_None_iff)

lemma update_where_missing:
  "i \<notin> todo_id ` set rs \<Longrightarrow> update_where i f rs = Inl (PrismaClientKnownRequestError ''P2025'')"
  by (induction rs) auto

lemma delete_where_missing:
  "i \<notin> todo_id ` set rs \<Longrightarrow> delete_where i rs = Inl (PrismaClientKnownRequestError ''P2025'')"
  by (induction rs) auto

lemma update_where_found:
  "i \<in> todo_id ` set rs \<Longrightarrow>
     \<exists>k < length rs. todo_id (rs ! k) = i \<and> (\<forall>j < k. todo_id (rs ! j) \<noteq> i)
        \<and> update_where i f rs
             = (case f (rs ! k) of Inl e \<Rightarrow> Inl e | Inr u \<Rightarrow> Inr (u, rs[k := u]))"
proof (induction rs)
  case Nil
  then show ?case by simp
next
  case (Cons r rs)
  show ?case
  proof (cases "todo_id r = i")
    case True
    then show ?thesis by (intro exI [of _ 0]) (simp split: sum.splits)
  next
    case False
    with Cons.prems have "i \<in> todo_id ` set rs" by auto
    from Cons.IH [OF this] obtain k where
      k: "k < length rs" "todo_id (rs ! k) = i" "\<forall>j < k. todo_id (rs ! j) \<noteq> i"
         "update_where i f rs = (case f (rs ! k) of Inl e \<Rightarrow> Inl e | Inr u \<Rightarrow> Inr (u, rs[k := u]))"
      by blast
    have "\<forall>j < Suc k. todo_id ((r # rs) ! j) \<noteq> i"
      using k(3) False by (auto simp: less_Suc_eq_0_disj)
    with k False show ?thesis
      by (intro exI [of _ "Suc k"]) (simp split: sum.splits)
  qed
qed

lemma update_where_Inr:
  assumes "update_where i f rs = Inr (u, rs')"
  shows "\<exists>k < length rs. todo_id (rs ! k) = i \<and> f (rs ! k) = Inr u \<and> rs' = rs[k := u]"
proof -
  have "i \<in> todo_id ` set rs"
    using assms update_where_missing [of i rs f] by auto
  from update_where_found [OF this, of f] obtain k where
    k: "k < length rs" "todo_id (rs ! k) = i"
       "update_where i f rs = (case f (rs ! k) of Inl e \<Rightarrow> Inl e | Inr u \<Rightarrow> Inr (u, rs[k := u]))"
    by blast
  with assms have "f (rs ! k) = Inr u \<and> rs' = rs[k := u]"
    by (auto split: sum.splits)
  with k show ?thesis by blast
qed

lemma update_where_ids:
  assumes "update_where i f rs = Inr (u, rs')" "\<And>r v. f r = Inr v \<Longrightarrow> todo_id v = todo_id r"
  shows "map todo_id rs' = map todo_id rs \<and> todo_id u = i"
proof -
  from update_where_Inr [OF assms(1)] obtain k where
    k: "k < length rs" "todo_id (rs ! k) = i" "f (rs ! k) = Inr u" "rs' = rs[k := u]" by blast
  from assms(2) [OF k(3)] k(2) have "todo_id u = i" "todo_id u = todo_id (rs ! k)" by simp_all
  with k show ?thesis
    by (simp add: map_update list_update_same_conv)
qed

lemma delete_where_Inr:
  "delete_where i rs = Inr (u, rs') \<Longrightarrow>
     todo_id u = i \<and> mset rs = add_mset u (mset rs')"
proof (induction rs arbitrary: rs')
  case Nil
  then show ?case by simp
next
  case (Cons r rs)
  show ?case
  proof (cases "todo_id r = i")
    case True
    with Cons.prems show ?thesis by auto
  next
    case False
    with Cons.prems obtain rs'' where
      step: "delete_where i rs = Inr (u, rs'')" and rs': "rs' = r # rs''"
      by (auto split: sum.splits)
    from Cons.IH [OF step] rs' show ?thesis by simp
  qed
qed

lemma delete_where_found:
  "i \<in> todo_id ` set rs \<Longrightarrow> \<exists>u rs'. delete_where i rs = Inr (u, rs')"
  by (induction rs) (auto split: sum.splits)

lemma delete_where_Inl:
  "delete_where i rs = Inl e \<Longrightarrow> e = PrismaClientKnownRequestError ''P2025'' \<and> i \<notin> todo_id ` set rs"
  using delete_where_found [of i rs] delete_where_missing [of i rs] by (cases "i \<in> todo_id ` set rs") auto

lemma delete_where_gone:
  assumes "delete_where i rs = Inr (u, rs')" "distinct (map todo_id rs)"
  shows "i \<notin> todo_id ` set rs'"
proof -
  from delete_where_Inr [OF assms(1)] have u: "todo_id u = i" and m: "mset rs = add_mset u (mset rs')"
    by simp_all
  from m have "mset (map todo_id rs) = add_mset i (mset (map todo_id rs'))"
    using u by (metis image_mset_add_mset mset_map)
  moreover from assms(2) have "count (mset (map todo_id rs)) i \<le> 1"
    by (simp add: distinct_count_atmost_1)
  ultimately have "count (mset (map todo_id rs')) i = 0" by simp
  then show ?thesis by (simp add: count_eq_zero_iff)
qed

lemma updated_row_id: "updated_row now s c r = Inr v \<Longrightarrow> todo_id v = todo_id r"
  by (auto simp: updated_row_def split: sum.splits if_splits)

section \<open>Listing\<close>

lemma findAll_sorted_keys:
  "sorted (map order_key (fst (TodoService_findAll tie db)))"
  by (simp add: TodoService_findAll_def prisma_todo_findMany_def)

lemma order_key_le_iff:
  "order_key a \<le> order_key b \<longleftrightarrow>
     TaskStatus_rank (status a) < TaskStatus_rank (status b)
     \<or> (status a = status b \<and> position a \<le> position b)"
  by (cases "status a"; cases "status b") (auto simp: order_key_def less_eq_prod_def)

text \<open>
  C1. \<open>findAll\<close> returns every row of the table, each as often as the table holds it.
  Of two rows of the result, the earlier one has the status of lower rank
  (\<open>TODO\<close>, then \<open>IN_PROGRESS\<close>, then \<open>DONE\<close>) or the same status and a position that
  is not greater. The call leaves the database as it was, so a second call, which finds
  the rows as the first did, returns the same sequence. This holds whatever the order
  is in which rows that agree on status and position are delivered.
\<close>

theorem findAll_ordered:
  "mset (fst (TodoService_findAll tie db)) = mset (rows db)
   \<and> (\<forall>i j. i < j \<and> j < length (fst (TodoService_findAll tie db)) \<longrightarrow>
         TaskStatus_rank (status (fst (TodoService_findAll tie db) ! i))
           < TaskStatus_rank (status (fst (TodoService_findAll tie db) ! j))
         \<or> (status (fst (TodoService_findAll tie db) ! i)
               = status (fst (TodoService_findAll tie db) ! j)
            \<and> position (fst (TodoService_findAll tie db) ! i)
                 \<le> position (fst (TodoService_findAll tie db) ! j)))
   \<and> snd (TodoService_findAll tie db) = db
   \<and> fst (TodoService_findAll tie (snd (TodoService_findAll tie db)))
       = fst (TodoService_findAll tie db)"
proof -
  let ?xs = "fst (TodoService_findAll tie db)"
  have all: "mset ?xs = mset (rows db)"
    by (simp add: TodoService_findAll_def prisma_todo_findMany_def)
  have ro: "snd (TodoService_findAll tie db) = db"
    by (simp add: TodoService_findAll_def prisma_todo_findMany_def)
  have ord: "order_key (?xs ! i) \<le> order_key (?xs ! j)" if "i < j" "j < length ?xs" for i j
  proof -
    have "map order_key ?xs ! i \<le> map order_key ?xs ! j"
      using findAll_sorted_keys [of tie db] that by (simp add: sorted_iff_nth_mono_less)
    with that show ?thesis by simp
  qed
  show ?thesis
    using all ro ord by (simp add: order_key_le_iff)
qed

lemma example_findAll:
  "fst (TodoService_findAll (\<lambda>r. nat (todo_id r)) example_board) =
     [\<lparr>todo_id = 3, title = ''Ship'', description = None, status = TODO,
       position = 0, createdAt = 25, updatedAt = 25\<rparr>,
      \<lparr>todo_id = 2, title = ''Review'', description = Some ''second pass'', status = TODO,
       position = 1, createdAt = 20, updatedAt = 20\<rparr>,
      \<lparr>todo_id = 1, title = ''Write spec'', description = None, status = IN_PROGRESS,
       position = 0, createdAt = 10, updatedAt = 30\<rparr>]"
  by code_simp

theorem findAll_ordered_witness:
  "(0::nat) < 1 \<and> 1 < length (fst (TodoService_findAll (\<lambda>r. nat (todo_id r)) example_board))
   \<and> status (fst (TodoService_findAll (\<lambda>r. nat (todo_id r)) example_board) ! 0)
       = status (fst (TodoService_findAll (\<lambda>r. nat (todo_id r)) example_board) ! 1)
   \<and> position (fst (TodoService_findAll (\<lambda>r. nat (todo_id r)) example_board) ! 0)
       \<le> position (fst (TodoService_findAll (\<lambda>r. nat (todo_id r)) example_board) ! 1)
   \<and> (1::nat) < 2 \<and> 2 < length (fst (TodoService_findAll (\<lambda>r. nat (todo_id r)) example_board))
   \<and> TaskStatus_rank (status (fst (TodoService_findAll (\<lambda>r. nat (todo_id r)) example_board) ! 1))
       < TaskStatus_rank (status (fst (TodoService_findAll (\<lambda>r. nat (todo_id r)) example_board) ! 2))"
proof -
  let ?xs = "fst (TodoService_findAll (\<lambda>r. nat (todo_id r)) example_board)"
  have h: "(0::nat) < 1 \<and> 1 < length ?xs" "(1::nat) < 2 \<and> 2 < length ?xs"
    by (simp_all add: example_findAll)
  have same: "\<not> TaskStatus_rank (status (?xs ! 0)) < TaskStatus_rank (status (?xs ! 1))"
    and differ: "status (?xs ! 1) \<noteq> status (?xs ! 2)"
    by (simp_all add: example_findAll)
  from findAll_ordered [of "\<lambda>r. nat (todo_id r)" example_board]
  have ord: "\<forall>i j. i < j \<and> j < length ?xs \<longrightarrow>
         TaskStatus_rank (status (?xs ! i)) < TaskStatus_rank (status (?xs ! j))
         \<or> (status (?xs ! i) = status (?xs ! j) \<and> position (?xs ! i) \<le> position (?xs ! j))"
    by blast
  from ord h(1) same have "status (?xs ! 0) = status (?xs ! 1)
      \<and> position (?xs ! 0) \<le> position (?xs ! 1)"
    by blast
  moreover from ord h(2) differ
  have "TaskStatus_rank (status (?xs ! 1)) < TaskStatus_rank (status (?xs ! 2))"
    by blast
  ultimately show ?thesis using h by blast
qed

section \<open>Creating\<close>

lemma create_rejected:
  "createTodoSchema body = Inl issues \<Longrightarrow>
     TodoController_create now body db = (Inl (BadRequestException issues), db)"
  by (simp add: TodoController_create_def ZodValidationPipe_transform_def)

lemma create_parsed:
  "createTodoSchema body = Inr dto \<Longrightarrow>
     TodoController_create now body db = TodoService_create now dto db"
  by (simp add: TodoController_create_def ZodValidationPipe_transform_def)

lemma schema_issue_rejects:
  assumes "issues_of (z_string_min 1 ''title'' (property_of props ''title'')) \<noteq> []
           \<or> issues_of (z_optional z_string ''description'' (property_of props ''description'')) \<noteq> []
           \<or> issues_of (z_optional TaskStatus_schema ''status'' (property_of props ''status'')) \<noteq> []
           \<or> issues_of (z_default 0 (z_optional z_number_int) ''position'' (property_of props ''position'')) \<noteq> []
           \<or> filter (\<lambda>k. k \<notin> set createTodoSchema_keys) (map fst props) \<noteq> []"
  shows "createTodoSchema (JObject props) =
           Inl (issues_of (z_string_min 1 ''title'' (property_of props ''title''))
                @ issues_of (z_optional z_string ''description'' (property_of props ''description''))
                @ issues_of (z_optional TaskStatus_schema ''status'' (property_of props ''status''))
                @ issues_of (z_default 0 (z_optional z_number_int) ''position'' (property_of props ''position''))
                @ (if filter (\<lambda>k. k \<notin> set createTodoSchema_keys) (map fst props) = [] then []
                   else [unrecognized_keys (filter (\<lambda>k. k \<notin> set createTodoSchema_keys) (map fst props))]))"
  using assms
  by (auto simp: createTodoSchema_def Let_def issues_of_def split: sum.splits)

lemma schema_accepts:
  assumes "z_string_min 1 ''title'' (property_of props ''title'') = Inr t"
    "z_optional z_string ''description'' (property_of props ''description'') = Inr d"
    "z_optional TaskStatus_schema ''status'' (property_of props ''status'') = Inr s"
    "z_default 0 (z_optional z_number_int) ''position'' (property_of props ''position'') = Inr p"
    "fst ` set props \<subseteq> set createTodoSchema_keys"
  shows "createTodoSchema (JObject props) =
           Inr \<lparr>dto_title = t, dto_description = d, dto_status = s, dto_position = Some p\<rparr>"
proof -
  from assms(5) have "filter (\<lambda>k. k \<notin> set createTodoSchema_keys) (map fst props) = []"
    by (auto simp: filter_empty_conv)
  with assms(1-4) show ?thesis
    by (simp add: createTodoSchema_def Let_def)
qed

lemma position_schema_int:
  "- MAX_SAFE_INTEGER \<le> n \<Longrightarrow> n \<le> MAX_SAFE_INTEGER \<Longrightarrow>
     z_default 0 (z_optional z_number_int) path (Some (JNumber (of_int n))) = Inr n"
  by (simp add: z_default_def z_optional_def z_number_int_def is_integer_def)

lemma position_schema_not_int:
  "(\<forall>q. v = JNumber q \<longrightarrow> \<not> is_integer q) \<Longrightarrow>
     z_default 0 (z_optional z_number_int) path (Some v) = Inl [invalid_type path]"
  by (cases v) (simp_all add: z_default_def z_optional_def z_number_int_def)

lemma int4_safe: "int4 n \<Longrightarrow> - MAX_SAFE_INTEGER \<le> n \<and> n \<le> MAX_SAFE_INTEGER"
  by (simp add: int4_def MAX_SAFE_INTEGER_def)

lemma status_schema_label:
  "l \<in> set TaskStatus_labels \<Longrightarrow> z_optional TaskStatus_schema path (Some (JString l)) = Inr (Some l)"
  by (simp add: z_optional_def TaskStatus_schema_def z_enum_def TaskStatus_labels_def)

lemma create_accepts:
  assumes title: "property_of props ''title'' = Some (JString t)" "t \<noteq> []"
    and descr: "property_of props ''description'' = map_option JString d"
    and stor: "storable_text t" "\<forall>x. d = Some x \<longrightarrow> storable_text x"
    and stat: "property_of props ''status'' = map_option JString s" "\<forall>l. s = Some l \<longrightarrow> l \<in> set TaskStatus_labels"
    and pos: "property_of props ''position'' = map_option (\<lambda>n. JNumber (of_int n)) p" "\<forall>n. p = Some n \<longrightarrow> int4 n"
    and keys: "fst ` set props \<subseteq> set createTodoSchema_keys"
    and seq: "int4 (next_id db)"
  shows "TodoController_create now (JObject props) db =
           (Inr \<lparr>todo_id = next_id db, title = t, description = d,
                  status = (case s of None \<Rightarrow> TODO | Some l \<Rightarrow> the (TaskStatus_of_label l)),
                  position = (case p of None \<Rightarrow> 0 | Some n \<Rightarrow> n),
                  createdAt = now, updatedAt = now\<rparr>,
            db\<lparr>rows := rows db @ [\<lparr>todo_id = next_id db, title = t, description = d,
                  status = (case s of None \<Rightarrow> TODO | Some l \<Rightarrow> the (TaskStatus_of_label l)),
                  position = (case p of None \<Rightarrow> 0 | Some n \<Rightarrow> n),
                  createdAt = now, updatedAt = now\<rparr>],
               next_id := next_id db + 1\<rparr>)"
proof -
  have t: "z_string_min 1 ''title'' (property_of props ''title'') = Inr t"
    using title by (cases t) (simp_all add: z_string_min_def z_string_def)
  have d: "z_optional z_string ''description'' (property_of props ''description'') = Inr d"
    using descr by (cases d) (simp_all add: z_optional_def z_string_def)
  have s: "z_optional TaskStatus_schema ''status'' (property_of props ''status'') = Inr s"
    using stat by (cases s) (simp_all add: status_schema_label, simp add: z_optional_def)
  have p: "z_default 0 (z_optional z_number_int) ''position'' (property_of props ''position'')
             = Inr (case p of None \<Rightarrow> 0 | Some n \<Rightarrow> n)"
    using pos int4_safe by (cases p) (simp_all add: position_schema_int, simp add: z_default_def)
  have lab: "(case s of None \<Rightarrow> Some TODO | Some l \<Rightarrow> TaskStatus_of_label l)
               = Some (case s of None \<Rightarrow> TODO | Some l \<Rightarrow> the (TaskStatus_of_label l))"
    using stat(2) TaskStatus_of_label_None_iff by (cases s) auto
  have rng: "int4 (case p of None \<Rightarrow> 0 | Some n \<Rightarrow> n)"
    using pos(2) by (cases p) (simp_all add: int4_def)
  have strb: "(case d of None \<Rightarrow> True | Some x \<Rightarrow> storable_text x)"
    using stor(2) by (cases d) simp_all
  show ?thesis
    unfolding create_parsed [OF schema_accepts [OF t d s p keys]]
    using lab rng seq stor(1) strb
    by (simp add: TodoService_create_def prisma_todo_create_def Let_def)
qed

lemma create_result:
  assumes "TodoController_create now body db = (res, db')"
  shows "(\<exists>e. res = Inl e \<and> db' = db)
         \<or> (\<exists>r. res = Inr r \<and> todo_id r = next_id db
                \<and> db' = db\<lparr>rows := rows db @ [r], next_id := next_id db + 1\<rparr>)"
  using assms
  by (auto simp: TodoController_create_def TodoService_create_def prisma_todo_create_def Let_def
           split: sum.splits option.splits if_splits)

lemma title_schema_Inr:
  "z_string_min 1 path v = Inr t \<Longrightarrow> v = Some (JString t) \<and> t \<noteq> []"
  by (auto simp: z_string_min_def z_string_def split: option.splits json.splits if_splits)

lemma description_schema_Inr:
  "z_optional z_string path v = Inr d \<Longrightarrow> v = map_option JString d"
  by (auto simp: z_optional_def z_string_def split: option.splits json.splits)

lemma status_schema_Inr:
  "z_optional TaskStatus_schema path v = Inr s \<Longrightarrow>
     v = map_option JString s \<and> (\<forall>l. s = Some l \<longrightarrow> l \<in> set TaskStatus_labels)"
  by (auto simp: z_optional_def TaskStatus_schema_def z_enum_def TaskStatus_labels_def
           split: option.splits json.splits if_splits)

lemma position_schema_Inr:
  "z_default 0 (z_optional z_number_int) path v = Inr n \<Longrightarrow>
     (v = None \<and> n = 0) \<or> v = Some (JNumber (of_int n))"
  by (auto simp: z_default_def z_optional_def z_number_int_def is_integer_def
           split: option.splits json.splits if_splits sum.splits)

lemma schema_Inr:
  assumes "createTodoSchema (JObject props) = Inr dto"
  shows "z_string_min 1 ''title'' (property_of props ''title'') = Inr (dto_title dto)
       \<and> z_optional z_string ''description'' (property_of props ''description'') = Inr (dto_description dto)
       \<and> z_optional TaskStatus_schema ''status'' (property_of props ''status'') = Inr (dto_status dto)
       \<and> (\<exists>n. z_default 0 (z_optional z_number_int) ''position'' (property_of props ''position'') = Inr n
              \<and> dto_position dto = Some n)
       \<and> filter (\<lambda>k. k \<notin> set createTodoSchema_keys) (map fst props) = []"
  using assms
  by (auto simp: createTodoSchema_def Let_def split: sum.splits if_splits)

lemma create_accepted_only:
  assumes "TodoController_create now (JObject props) db = (Inr r, db')"
  shows "\<exists>t d s p. property_of props ''title'' = Some (JString t) \<and> t \<noteq> []
           \<and> property_of props ''description'' = map_option JString d
           \<and> storable_text t \<and> (\<forall>x. d = Some x \<longrightarrow> storable_text x)
           \<and> property_of props ''status'' = map_option JString s
           \<and> (\<forall>l. s = Some l \<longrightarrow> l \<in> set TaskStatus_labels)
           \<and> property_of props ''position'' = map_option (\<lambda>n. JNumber (of_int n)) p
           \<and> (\<forall>n. p = Some n \<longrightarrow> int4 n)
           \<and> fst ` set props \<subseteq> set createTodoSchema_keys
           \<and> int4 (next_id db)"
proof -
  from assms obtain dto where dto: "createTodoSchema (JObject props) = Inr dto"
    and svc: "TodoService_create now dto db = (Inr r, db')"
    by (auto simp: TodoController_create_def ZodValidationPipe_transform_def split: sum.splits)
  from schema_Inr [OF dto] obtain n where
    t: "z_string_min 1 ''title'' (property_of props ''title'') = Inr (dto_title dto)"
    and d: "z_optional z_string ''description'' (property_of props ''description'') = Inr (dto_description dto)"
    and s: "z_optional TaskStatus_schema ''status'' (property_of props ''status'') = Inr (dto_status dto)"
    and p: "z_default 0 (z_optional z_number_int) ''position'' (property_of props ''position'') = Inr n"
           "dto_position dto = Some n"
    and k: "filter (\<lambda>k. k \<notin> set createTodoSchema_keys) (map fst props) = []"
    by blast
  from svc p(2) have rng: "int4 n" "int4 (next_id db)"
    and strb: "storable_text (dto_title dto)"
      "\<forall>x. dto_description dto = Some x \<longrightarrow> storable_text x"
    by (auto simp: TodoService_create_def prisma_todo_create_def Let_def range_error_None_iff
             split: option.splits if_splits)
  from k have keys: "fst ` set props \<subseteq> set createTodoSchema_keys"
    by (auto simp: filter_empty_conv)
  define p' where "p' = (if property_of props ''position'' = None then None else Some n)"
  from position_schema_Inr [OF p(1)] have
    pos: "property_of props ''position'' = map_option (\<lambda>n. JNumber (of_int n)) p'"
    by (auto simp: p'_def)
  have prng: "\<forall>m. p' = Some m \<longrightarrow> int4 m"
    using rng(1) by (auto simp: p'_def)
  from title_schema_Inr [OF t] description_schema_Inr [OF d] status_schema_Inr [OF s]
    pos prng keys rng(2) strb
  show ?thesis by blast
qed

lemma create_rejects_empty_title:
  assumes "property_of props ''title'' = None \<or> property_of props ''title'' = Some (JString [])"
  shows "\<exists>issues. TodoController_create now (JObject props) db = (Inl (BadRequestException issues), db)"
proof -
  from assms have "issues_of (z_string_min 1 ''title'' (property_of props ''title'')) \<noteq> []"
    by (auto simp: z_string_min_def z_string_def issues_of_def)
  then show ?thesis
    using create_rejected [OF schema_issue_rejects] by blast
qed

lemma create_rejects_unstorable_text:
  assumes "property_of props ''title'' = Some (JString t)" and "\<not> storable_text t"
  shows "\<exists>e. TodoController_create now (JObject props) db = (Inl e, db)"
proof (cases "createTodoSchema (JObject props)")
  case (Inl issues)
  then show ?thesis using create_rejected by blast
next
  case (Inr dto)
  from schema_Inr [OF Inr] title_schema_Inr [of "''title''" "property_of props ''title''" "dto_title dto"]
    assms(1)
  have "dto_title dto = t" by simp
  with assms(2) show ?thesis
    unfolding create_parsed [OF Inr]
    by (auto simp: TodoService_create_def prisma_todo_create_def Let_def split: option.splits)
qed

text \<open>
  C2. A title that is missing or empty is refused (\<open>create_rejects_empty_title\<close>), but
  a title of blanks only is not: the schema asks for one character at least and does not
  trim. Here the body \<^verbatim>\<open>{ "title": "   " }\<close> is stored as the first row of the empty
  table.
\<close>

theorem create_accepts_blank_title:
  "TodoController_create 10 (JObject [(''title'', JString ''   '')]) empty_database =
     (Inr \<lparr>todo_id = 1, title = ''   '', description = None, status = TODO, position = 0,
            createdAt = 10, updatedAt = 10\<rparr>,
      \<lparr>rows = [\<lparr>todo_id = 1, title = ''   '', description = None, status = TODO, position = 0,
                createdAt = 10, updatedAt = 10\<rparr>],
       next_id = 2\<rparr>)"
  by code_simp

text \<open>
  C6. Whenever a create request returns a row, its status is \<open>TODO\<close> if the request
  has none and its position is \<open>0\<close> if the request has none; its id is the next value
  of the sequence, both timestamps are the time of the request, its title is the
  non-empty title of the request, and it is the one row added to the table.
  A create request does return a row when (and, by \<open>create_accepted_only\<close>, only when)
  its title is a non-empty string, its description, status and position are absent or a
  string, a label of the enum and an integer of the column's range, title and
  description are texts the column can store, it has no other key, and the sequence is
  not exhausted; status and position of the row are then those of the request where it
  gives them, and the description is that of the request.
\<close>

theorem create_defaults:
  "(TodoController_create now (JObject props) db = (Inr r, db') \<longrightarrow>
      (property_of props ''status'' = None \<longrightarrow> status r = TODO)
      \<and> (property_of props ''position'' = None \<longrightarrow> position r = 0)
      \<and> todo_id r = next_id db \<and> createdAt r = now \<and> updatedAt r = now
      \<and> property_of props ''title'' = Some (JString (title r)) \<and> title r \<noteq> []
      \<and> db' = db\<lparr>rows := rows db @ [r], next_id := next_id db + 1\<rparr>)
   \<and> (property_of props ''title'' = Some (JString t) \<and> t \<noteq> []
        \<and> property_of props ''description'' = map_option JString d
        \<and> storable_text t \<and> (\<forall>x. d = Some x \<longrightarrow> storable_text x)
        \<and> property_of props ''status'' = map_option JString s
        \<and> (\<forall>l. s = Some l \<longrightarrow> l \<in> set TaskStatus_labels)
        \<and> property_of props ''position'' = map_option (\<lambda>n. JNumber (of_int n)) p
        \<and> (\<forall>n. p = Some n \<longrightarrow> int4 n)
        \<and> fst ` set props \<subseteq> set createTodoSchema_keys
        \<and> int4 (next_id db) \<longrightarrow>
        (\<exists>r. TodoController_create now (JObject props) db
                 = (Inr r, db\<lparr>rows := rows db @ [r], next_id := next_id db + 1\<rparr>)
             \<and> (s = None \<longrightarrow> status r = TODO)
             \<and> (\<forall>l. s = Some l \<longrightarrow> TaskStatus_of_label l = Some (status r))
             \<and> (p = None \<longrightarrow> position r = 0)
             \<and> (\<forall>n. p = Some n \<longrightarrow> position r = n)
             \<and> todo_id r = next_id db \<and> title r = t \<and> description r = d
             \<and> createdAt r = now \<and> updatedAt r = now))"
proof (rule conjI; rule impI)
  assume ok: "TodoController_create now (JObject props) db = (Inr r, db')"
  from create_accepted_only [OF ok] obtain t' d' s' p' where
    hc: "property_of props ''title'' = Some (JString t') \<and> t' \<noteq> []
           \<and> property_of props ''description'' = map_option JString d'
           \<and> storable_text t' \<and> (\<forall>x. d' = Some x \<longrightarrow> storable_text x)
           \<and> property_of props ''status'' = map_option JString s'
           \<and> (\<forall>l. s' = Some l \<longrightarrow> l \<in> set TaskStatus_labels)
           \<and> property_of props ''position'' = map_option (\<lambda>n. JNumber (of_int n)) p'
           \<and> (\<forall>n. p' = Some n \<longrightarrow> int4 n)
           \<and> fst ` set props \<subseteq> set createTodoSchema_keys
           \<and> int4 (next_id db)"
    by (elim exE)
  then have
    h: "property_of props ''title'' = Some (JString t')" "t' \<noteq> []"
       "property_of props ''description'' = map_option JString d'"
       "storable_text t'" "\<forall>x. d' = Some x \<longrightarrow> storable_text x"
       "property_of props ''status'' = map_option JString s'"
       "\<forall>l. s' = Some l \<longrightarrow> l \<in> set TaskStatus_labels"
       "property_of props ''position'' = map_option (\<lambda>n. JNumber (of_int n)) p'"
       "\<forall>n. p' = Some n \<longrightarrow> int4 n"
       "fst ` set props \<subseteq> set createTodoSchema_keys"
       "int4 (next_id db)"
    by blast+
  have none: "s' = None" if "property_of props ''status'' = None"
    using that h(6) by (cases s') simp_all
  have nopos: "p' = None" if "property_of props ''position'' = None"
    using that h(8) by (cases p') simp_all
  have r: "r = \<lparr>todo_id = next_id db, title = t', description = d',
              status = (case s' of None \<Rightarrow> TODO | Some l \<Rightarrow> the (TaskStatus_of_label l)),
              position = (case p' of None \<Rightarrow> 0 | Some n \<Rightarrow> n),
              createdAt = now, updatedAt = now\<rparr>"
    using ok unfolding create_accepts [OF h, of now] by (simp only: prod.inject sum.inject)
  have db': "db' = db\<lparr>rows := rows db @ [r], next_id := next_id db + 1\<rparr>"
    using ok unfolding create_accepts [OF h, of now] r [symmetric]
    by (simp only: prod.inject)
  show "(property_of props ''status'' = None \<longrightarrow> status r = TODO)
      \<and> (property_of props ''position'' = None \<longrightarrow> position r = 0)
      \<and> todo_id r = next_id db \<and> createdAt r = now \<and> updatedAt r = now
      \<and> property_of props ''title'' = Some (JString (title r)) \<and> title r \<noteq> []
      \<and> db' = db\<lparr>rows := rows db @ [r], next_id := next_id db + 1\<rparr>"
    using none nopos h(1,2) db' by (auto simp: r)
next
  assume a: "property_of props ''title'' = Some (JString t) \<and> t \<noteq> []
        \<and> property_of props ''description'' = map_option JString d
        \<and> storable_text t \<and> (\<forall>x. d = Some x \<longrightarrow> storable_text x)
        \<and> property_of props ''status'' = map_option JString s
        \<and> (\<forall>l. s = Some l \<longrightarrow> l \<in> set TaskStatus_labels)
        \<and> property_of props ''position'' = map_option (\<lambda>n. JNumber (of_int n)) p
        \<and> (\<forall>n. p = Some n \<longrightarrow> int4 n)
        \<and> fst ` set props \<subseteq> set createTodoSchema_keys
        \<and> int4 (next_id db)"
  then have eq: "TodoController_create now (JObject props) db =
           (Inr \<lparr>todo_id = next_id db, title = t, description = d,
                  status = (case s of None \<Rightarrow> TODO | Some l \<Rightarrow> the (TaskStatus_of_label l)),
                  position = (case p of None \<Rightarrow> 0 | Some n \<Rightarrow> n),
                  createdAt = now, updatedAt = now\<rparr>,
            db\<lparr>rows := rows db @ [\<lparr>todo_id = next_id db, title = t, description = d,
                  status = (case s of None \<Rightarrow> TODO | Some l \<Rightarrow> the (TaskStatus_of_label l)),
                  position = (case p of None \<Rightarrow> 0 | Some n \<Rightarrow> n),
                  createdAt = now, updatedAt = now\<rparr>],
               next_id := next_id db + 1\<rparr>)"
    using create_accepts [of props t d s p db now] by blast
  have "TaskStatus_of_label l = Some (the (TaskStatus_of_label l))" if "s = Some l" for l
    using that a TaskStatus_of_label_None_iff [of l] by auto
  then show "\<exists>r. TodoController_create now (JObject props) db
                 = (Inr r, db\<lparr>rows := rows db @ [r], next_id := next_id db + 1\<rparr>)
             \<and> (s = None \<longrightarrow> status r = TODO)
             \<and> (\<forall>l. s = Some l \<longrightarrow> TaskStatus_of_label l = Some (status r))
             \<and> (p = None \<longrightarrow> position r = 0)
             \<and> (\<forall>n. p = Some n \<longrightarrow> position r = n)
             \<and> todo_id r = next_id db \<and> title r = t \<and> description r = d
             \<and> createdAt r = now \<and> updatedAt r = now"
    unfolding eq by auto
qed

lemma example_create:
  "TodoController_create 10 (JObject [(''title'', JString ''Write spec'')]) empty_database =
     (Inr \<lparr>todo_id = 1, title = ''Write spec'', description = None, status = TODO, position = 0,
            createdAt = 10, updatedAt = 10\<rparr>,
      \<lparr>rows = [\<lparr>todo_id = 1, title = ''Write spec'', description = None, status = TODO,
                position = 0, createdAt = 10, updatedAt = 10\<rparr>],
       next_id = 2\<rparr>)"
  by code_simp

theorem create_defaults_witness:
  "status \<lparr>todo_id = 1, title = ''Write spec'', description = None, status = TODO, position = 0,
           createdAt = 10, updatedAt = 10\<rparr> = TODO
   \<and> TodoController_create 10 (JObject [(''title'', JString ''Write spec'')]) empty_database =
     (Inr \<lparr>todo_id = 1, title = ''Write spec'', description = None, status = TODO, position = 0,
            createdAt = 10, updatedAt = 10\<rparr>,
      \<lparr>rows = [\<lparr>todo_id = 1, title = ''Write spec'', description = None, status = TODO,
                position = 0, createdAt = 10, updatedAt = 10\<rparr>],
       next_id = 2\<rparr>)
   \<and> (\<exists>r. TodoController_create 10 (JObject [(''title'', JString ''Write spec'')]) empty_database
          = (Inr r, empty_database\<lparr>rows := rows empty_database @ [r],
                                    next_id := next_id empty_database + 1\<rparr>)
      \<and> status r = TODO \<and> position r = 0 \<and> todo_id r = 1 \<and> title r = ''Write spec''
      \<and> description r = None \<and> createdAt r = 10 \<and> updatedAt r = 10)"
proof -
  let ?props = "[(''title'', JString ''Write spec'')]"
  let ?r = "\<lparr>todo_id = 1, title = ''Write spec'', description = None, status = TODO, position = 0,
             createdAt = 10, updatedAt = 10\<rparr>"
  have nostatus: "property_of ?props ''status'' = None" by simp
  from create_defaults [of 10 ?props empty_database ?r
      "\<lparr>rows = [?r], next_id = 2\<rparr>"] example_create nostatus
  have a: "status ?r = TODO" by blast
  have h: "property_of ?props ''title'' = Some (JString ''Write spec'') \<and> ''Write spec'' \<noteq> []
        \<and> property_of ?props ''description'' = map_option JString None
        \<and> storable_text ''Write spec'' \<and> (\<forall>x. (None :: string option) = Some x \<longrightarrow> storable_text x)
        \<and> property_of ?props ''status'' = map_option JString None
        \<and> (\<forall>l. (None :: string option) = Some l \<longrightarrow> l \<in> set TaskStatus_labels)
        \<and> property_of ?props ''position'' = map_option (\<lambda>n. JNumber (of_int n)) None
        \<and> (\<forall>n. (None :: int option) = Some n \<longrightarrow> int4 n)
        \<and> fst ` set ?props \<subseteq> set createTodoSchema_keys
        \<and> int4 (next_id empty_database)"
    by (simp add: createTodoSchema_keys_def int4_def empty_database_def storable_text_def)
  from create_defaults [of 10 ?props empty_database _ _ "''Write spec''" None None None] h
  have "\<exists>r. TodoController_create 10 (JObject ?props) empty_database
          = (Inr r, empty_database\<lparr>rows := rows empty_database @ [r],
                                    next_id := next_id empty_database + 1\<rparr>)
             \<and> ((None :: string option) = None \<longrightarrow> status r = TODO)
             \<and> (\<forall>l. (None :: string option) = Some l \<longrightarrow> TaskStatus_of_label l = Some (status r))
             \<and> ((None :: int option) = None \<longrightarrow> position r = 0)
             \<and> (\<forall>n. (None :: int option) = Some n \<longrightarrow> position r = n)
             \<and> todo_id r = next_id empty_database \<and> title r = ''Write spec'' \<and> description r = None
             \<and> createdAt r = 10 \<and> updatedAt r = 10"
    by blast
  then have b: "\<exists>r. TodoController_create 10 (JObject ?props) empty_database
          = (Inr r, empty_database\<lparr>rows := rows empty_database @ [r],
                                    next_id := next_id empty_database + 1\<rparr>)
      \<and> status r = TODO \<and> position r = 0 \<and> todo_id r = 1 \<and> title r = ''Write spec''
      \<and> description r = None \<and> createdAt r = 10 \<and> updatedAt r = 10"
    by (simp add: empty_database_def)
  from a example_create b show ?thesis by blast
qed

text \<open>
  C7, as the claim states it, fails: a request with position \<open>-1\<close> is accepted and the
  row is stored at that position.
\<close>

theorem create_negative_position_counterexample:
  "TodoController_create 10 (JObject [(''title'', JString ''Review''), (''position'', JNumber (- 1))])
     empty_database =
     (Inr \<lparr>todo_id = 1, title = ''Review'', description = None, status = TODO, position = - 1,
            createdAt = 10, updatedAt = 10\<rparr>,
      \<lparr>rows = [\<lparr>todo_id = 1, title = ''Review'', description = None, status = TODO,
                position = - 1, createdAt = 10, updatedAt = 10\<rparr>],
       next_id = 2\<rparr>)"
  by code_simp

text \<open>
  C7, amended. A create request whose position is given and is not an integer (not a
  number, or a number with a fractional part) is refused with a
  \<^verbatim>\<open>BadRequestException\<close> and the database stays as it was. A request that is
  otherwise well formed (as in C6: a non-empty title, texts the column can store, a
  valid status if any, no other key, a sequence that is not exhausted) and gives a
  negative integer of the column's range as its position is accepted, and the row is
  stored with that position.
\<close>

theorem create_position_validation:
  "(property_of props ''position'' = Some v \<and> (\<forall>q. v = JNumber q \<longrightarrow> \<not> is_integer q) \<longrightarrow>
      (\<exists>issues. TodoController_create now (JObject props) db
                   = (Inl (BadRequestException issues), db)))
   \<and> (property_of props ''title'' = Some (JString t) \<and> t \<noteq> []
        \<and> property_of props ''description'' = map_option JString d
        \<and> storable_text t \<and> (\<forall>x. d = Some x \<longrightarrow> storable_text x)
        \<and> property_of props ''status'' = map_option JString s
        \<and> (\<forall>l. s = Some l \<longrightarrow> l \<in> set TaskStatus_labels)
        \<and> property_of props ''position'' = Some (JNumber (of_int n)) \<and> n < 0 \<and> int4 n
        \<and> fst ` set props \<subseteq> set createTodoSchema_keys \<and> int4 (next_id db) \<longrightarrow>
        (\<exists>r. TodoController_create now (JObject props) db
                = (Inr r, db\<lparr>rows := rows db @ [r], next_id := next_id db + 1\<rparr>)
            \<and> position r = n))"
proof (intro conjI impI)
  assume a: "property_of props ''position'' = Some v \<and> (\<forall>q. v = JNumber q \<longrightarrow> \<not> is_integer q)"
  then have "issues_of (z_default 0 (z_optional z_number_int) ''position'' (property_of props ''position'')) \<noteq> []"
    by (simp add: position_schema_not_int issues_of_def)
  then show "\<exists>issues. TodoController_create now (JObject props) db
                   = (Inl (BadRequestException issues), db)"
    using create_rejected [OF schema_issue_rejects] by blast
next
  assume a: "property_of props ''title'' = Some (JString t) \<and> t \<noteq> []
        \<and> property_of props ''description'' = map_option JString d
        \<and> storable_text t \<and> (\<forall>x. d = Some x \<longrightarrow> storable_text x)
        \<and> property_of props ''status'' = map_option JString s
        \<and> (\<forall>l. s = Some l \<longrightarrow> l \<in> set TaskStatus_labels)
        \<and> property_of props ''position'' = Some (JNumber (of_int n)) \<and> n < 0 \<and> int4 n
        \<and> fst ` set props \<subseteq> set createTodoSchema_keys \<and> int4 (next_id db)"
  then have "property_of props ''position'' = map_option (\<lambda>n. JNumber (of_int n)) (Some n)"
    "\<forall>m. Some n = Some m \<longrightarrow> int4 m"
    by simp_all
  with a show "\<exists>r. TodoController_create now (JObject props) db
                = (Inr r, db\<lparr>rows := rows db @ [r], next_id := next_id db + 1\<rparr>)
            \<and> position r = n"
    using create_accepts [of props t d s "Some n" db now] by simp
qed

theorem create_position_validation_witness:
  "(\<exists>issues. TodoController_create 10
       (JObject [(''title'', JString ''Review''), (''position'', JNumber (3 / 2))]) empty_database
       = (Inl (BadRequestException issues), empty_database))
   \<and> (\<exists>r. TodoController_create 10
       (JObject [(''title'', JString ''Review''), (''position'', JNumber (of_int (- 1)))]) empty_database
       = (Inr r, empty_database\<lparr>rows := rows empty_database @ [r],
                                 next_id := next_id empty_database + 1\<rparr>)
        \<and> position r = - 1)"
proof -
  let ?bad = "[(''title'', JString ''Review''), (''position'', JNumber (3 / 2))]"
  let ?neg = "[(''title'', JString ''Review''), (''position'', JNumber (of_int (- 1)))]"
  have frac: "\<not> is_integer (3 / 2)" by code_simp
  have "\<forall>q. JNumber (3 / 2) = JNumber q \<longrightarrow> \<not> is_integer q"
    using frac by (metis json.inject(2))
  then have h1: "property_of ?bad ''position'' = Some (JNumber (3 / 2))
            \<and> (\<forall>q. JNumber (3 / 2) = JNumber q \<longrightarrow> \<not> is_integer q)"
    by simp
  have h2: "property_of ?neg ''title'' = Some (JString ''Review'') \<and> ''Review'' \<noteq> []
        \<and> property_of ?neg ''description'' = map_option JString None
        \<and> storable_text ''Review'' \<and> (\<forall>x. (None :: string option) = Some x \<longrightarrow> storable_text x)
        \<and> property_of ?neg ''status'' = map_option JString None
        \<and> (\<forall>l. (None :: string option) = Some l \<longrightarrow> l \<in> set TaskStatus_labels)
        \<and> property_of ?neg ''position'' = Some (JNumber (of_int (- 1))) \<and> (- 1 :: int) < 0 \<and> int4 (- 1)
        \<and> fst ` set ?neg \<subseteq> set createTodoSchema_keys \<and> int4 (next_id empty_database)"
    by (simp add: createTodoSchema_keys_def int4_def empty_database_def storable_text_def)
  from create_position_validation [of ?bad "JNumber (3 / 2)" 10 empty_database] h1
  have a: "\<exists>issues. TodoController_create 10 (JObject ?bad) empty_database
       = (Inl (BadRequestException issues), empty_database)"
    by blast
  from create_position_validation [of ?neg _ 10 empty_database "''Review''" None None "- 1"] h2
  have b: "\<exists>r. TodoController_create 10 (JObject ?neg) empty_database
       = (Inr r, empty_database\<lparr>rows := rows empty_database @ [r],
                                 next_id := next_id empty_database + 1\<rparr>)
        \<and> position r = - 1"
    by blast
  from a b show ?thesis by blast
qed

text \<open>
  C8. A create request that has a key other than \<open>title\<close>, \<open>description\<close>,
  \<open>status\<close> and \<open>position\<close> is refused with a \<^verbatim>\<open>BadRequestException\<close>, whatever
  its other fields are; the issues it carries list the keys that are not recognised, and
  the database stays as it was.
\<close>

theorem create_rejects_unrecognized_keys:
  assumes "k \<in> fst ` set props" and "k \<notin> {''title'', ''description'', ''status'', ''position''}"
  shows "\<exists>issues. TodoController_create now (JObject props) db
                    = (Inl (BadRequestException issues), db)
           \<and> unrecognized_keys (filter (\<lambda>k. k \<notin> set createTodoSchema_keys) (map fst props))
                \<in> set issues"
proof -
  from assms have "k \<in> set (filter (\<lambda>k. k \<notin> set createTodoSchema_keys) (map fst props))"
    by (simp add: createTodoSchema_keys_def)
  then have ne: "filter (\<lambda>k. k \<notin> set createTodoSchema_keys) (map fst props) \<noteq> []"
    by (metis empty_iff empty_set)
  then show ?thesis
    using create_rejected [OF schema_issue_rejects, of props now db] by simp
qed

theorem create_rejects_unrecognized_keys_witness:
  "\<exists>issues. TodoController_create 10
       (JObject [(''title'', JString ''Review''), (''owner'', JString ''me'')]) example_board
       = (Inl (BadRequestException issues), example_board)
     \<and> unrecognized_keys (filter (\<lambda>k. k \<notin> set createTodoSchema_keys)
          (map fst [(''title'', JString ''Review''), (''owner'', JString ''me'')])) \<in> set issues"
proof -
  let ?props = "[(''title'', JString ''Review''), (''owner'', JString ''me'')]"
  have h1: "''owner'' \<in> fst ` set ?props" by simp
  have h2: "''owner'' \<notin> {''title'', ''description'', ''status'', ''position''}" by simp
  show ?thesis by (rule create_rejects_unrecognized_keys [OF h1 h2])
qed

section \<open>Moving and removing\<close>

lemma enum_update_input_label:
  "TaskStatus_of_label l = Some s \<Longrightarrow> enum_update_input (Some (JString l)) = Inr (Some s)"
  by simp

lemma enum_update_input_no_label:
  "l \<notin> set TaskStatus_labels \<Longrightarrow>
     enum_update_input (Some (JString l)) = Inl PrismaClientValidationError"
  using TaskStatus_of_label_None_iff [of l] by simp

lemma is_integer_of_int [simp]: "is_integer (of_int n)"
  by (simp add: is_integer_def)

lemma int_update_input_integer:
  "int_update_input fraction (Some (JNumber (of_int n))) = Inr (Some (SetInt n))"
  by simp

lemma updated_row_set:
  "int4 p \<Longrightarrow>
     updated_row now (Some s) (Some (SetInt p)) r
       = Inr (r\<lparr>status := s, position := p, updatedAt := now\<rparr>)"
  by (simp add: updated_row_def)

lemma updateStatus_Inl:
  "TodoService_updateStatus fraction now i st p db = (Inl e, db') \<Longrightarrow> db' = db"
  by (auto simp: TodoService_updateStatus_def prisma_todo_update_def
           split: sum.splits option.splits)

lemma remove_Inl:
  "TodoService_remove i db = (Inl e, db') \<Longrightarrow> db' = db"
  by (auto simp: TodoService_remove_def prisma_todo_delete_def split: sum.splits option.splits)

lemma updateStatus_out_of_range:
  assumes "\<not> int4 i"
  shows "\<exists>e. TodoService_updateStatus fraction now i st p db = (Inl e, db)"
proof -
  have "\<exists>e. range_error (i # ns) = Some e" for ns
    using assms range_error_None_iff [of "i # ns"] by auto
  then obtain f where f: "range_error (i # ns) = Some (f ns)" for ns
    by metis
  show ?thesis
    by (simp add: TodoService_updateStatus_def prisma_todo_update_def f
          split: sum.splits option.splits)
qed

lemma updateStatus_not_found:
  assumes "i \<notin> todo_id ` set (rows db)" "int4 i" "l \<in> set TaskStatus_labels" "int4 p"
  shows "TodoService_updateStatus fraction now i (Some (JString l)) (Some (JNumber (of_int p))) db
           = (Inl (PrismaClientKnownRequestError ''P2025''), db)"
proof -
  from assms(3) obtain s where "TaskStatus_of_label l = Some s"
    using TaskStatus_of_label_None_iff [of l] by auto
  then show ?thesis
    using assms(1,2,4)
    by (simp add: TodoService_updateStatus_def prisma_todo_update_def int_update_input_integer
          update_where_missing)
qed

lemma remove_not_found:
  assumes "i \<notin> todo_id ` set (rows db)" "int4 i"
  shows "TodoService_remove i db = (Inl (PrismaClientKnownRequestError ''P2025''), db)"
  using assms by (simp add: TodoService_remove_def prisma_todo_delete_def delete_where_missing)

lemma remove_out_of_range:
  assumes "\<not> int4 i"
  shows "\<exists>e. TodoService_remove i db = (Inl e, db)
              \<and> e \<noteq> PrismaClientKnownRequestError ''P2025''"
proof -
  from assms obtain e where e: "range_error [i] = Some e"
    using range_error_None_iff [of "[i]"] by auto
  from range_error_Some [OF e] have "e \<noteq> PrismaClientKnownRequestError ''P2025''"
    by auto
  with e show ?thesis
    by (simp add: TodoService_remove_def prisma_todo_delete_def)
qed

lemma remove_Inr:
  assumes "TodoService_remove i db = (Inr u, db')"
  shows "int4 i \<and> delete_where i (rows db) = Inr (u, rows db') \<and> next_id db' = next_id db"
  using assms
  by (auto simp: TodoService_remove_def prisma_todo_delete_def range_error_None_iff
           split: option.splits sum.splits)

lemma updateStatus_found:
  assumes "i \<in> todo_id ` set (rows db)" "int4 i" "TaskStatus_of_label l = Some s" "int4 p"
  shows "\<exists>k < length (rows db).
           todo_id (rows db ! k) = i
           \<and> (\<forall>j < k. todo_id (rows db ! j) \<noteq> i)
           \<and> TodoService_updateStatus fraction now i (Some (JString l)) (Some (JNumber (of_int p))) db
               = (Inr ((rows db ! k)\<lparr>status := s, position := p, updatedAt := now\<rparr>),
                  db\<lparr>rows := (rows db)[k := (rows db ! k)\<lparr>status := s, position := p, updatedAt := now\<rparr>]\<rparr>)"
proof -
  let ?f = "updated_row now (Some s) (Some (SetInt p))"
  from update_where_found [OF assms(1), of ?f] obtain k where
    k: "k < length (rows db)" "todo_id (rows db ! k) = i" "\<forall>j < k. todo_id (rows db ! j) \<noteq> i"
       "update_where i ?f (rows db)
          = (case ?f (rows db ! k) of Inl e \<Rightarrow> Inl e | Inr u \<Rightarrow> Inr (u, (rows db)[k := u]))"
    by blast
  have "TodoService_updateStatus fraction now i (Some (JString l)) (Some (JNumber (of_int p))) db
          = (Inr ((rows db ! k)\<lparr>status := s, position := p, updatedAt := now\<rparr>),
             db\<lparr>rows := (rows db)[k := (rows db ! k)\<lparr>status := s, position := p, updatedAt := now\<rparr>]\<rparr>)"
    using assms(2,3,4) k(4)
    by (simp add: TodoService_updateStatus_def prisma_todo_update_def int_update_input_integer
          updated_row_set)
  with k show ?thesis by blast
qed

lemma updateStatus_result:
  assumes "TodoService_updateStatus fraction now i st p db = (res, db')"
  shows "next_id db' = next_id db \<and> map todo_id (rows db') = map todo_id (rows db)
         \<and> (\<forall>u. res = Inr u \<longrightarrow> todo_id u = i)"
proof (cases res)
  case (Inl e)
  with assms updateStatus_Inl have "db' = db" by blast
  with Inl show ?thesis by simp
next
  case (Inr u)
  with assms obtain s c where
    "update_where i (updated_row now s c) (rows db) = Inr (u, rows db')"
    "next_id db' = next_id db"
    by (auto simp: TodoService_updateStatus_def prisma_todo_update_def
             split: sum.splits option.splits)
  with Inr show ?thesis
    using update_where_ids [of i "updated_row now s c" "rows db" u "rows db'"] updated_row_id
    by auto
qed

lemma move_result:
  assumes "TodoController_moveTask fraction now i body db = (res, db')"
  shows "next_id db' = next_id db \<and> map todo_id (rows db') = map todo_id (rows db)
         \<and> (\<forall>u. res = Inr u \<longrightarrow> todo_id u = i)"
proof (cases "property body ''status''")
  case (Inl e)
  with assms show ?thesis by (auto simp: TodoController_moveTask_def)
next
  case st: (Inr st)
  show ?thesis
  proof (cases "property body ''position''")
    case (Inl e)
    with assms st show ?thesis by (auto simp: TodoController_moveTask_def)
  next
    case (Inr p)
    with assms st have "TodoService_updateStatus fraction now i st p db = (res, db')"
      by (simp add: TodoController_moveTask_def)
    then show ?thesis by (rule updateStatus_result)
  qed
qed

lemma remove_result:
  assumes "TodoController_remove i db = (res, db')"
  shows "next_id db' = next_id db \<and> mset (rows db') \<subseteq># mset (rows db)"
proof (cases res)
  case (Inl e)
  with assms remove_Inl have "db' = db" by (auto simp: TodoController_remove_def)
  then show ?thesis by simp
next
  case (Inr u)
  with assms have "delete_where i (rows db) = Inr (u, rows db')" "next_id db' = next_id db"
    using remove_Inr [of i db u db'] by (simp_all add: TodoController_remove_def)
  then show ?thesis using delete_where_Inr [of i "rows db" u "rows db'"] by simp
qed

lemma move_object_body:
  "TodoController_moveTask fraction now i (JObject props) db
     = TodoService_updateStatus fraction now i (property_of props ''status'') (property_of props ''position'') db"
  by (simp add: TodoController_moveTask_def)

text \<open>
  A move whose body has no status is not refused: the status stays and the position is
  written.
\<close>

lemma move_without_status_example:
  "TodoController_moveTask refuse_fraction 40 2 (JObject [(''position'', JNumber 3)]) example_board =
     (Inr \<lparr>todo_id = 2, title = ''Review'', description = Some ''second pass'', status = TODO,
            position = 3, createdAt = 20, updatedAt = 40\<rparr>,
      \<lparr>rows =
        [\<lparr>todo_id = 1, title = ''Write spec'', description = None, status = IN_PROGRESS,
          position = 0, createdAt = 10, updatedAt = 30\<rparr>,
         \<lparr>todo_id = 2, title = ''Review'', description = Some ''second pass'', status = TODO,
          position = 3, createdAt = 20, updatedAt = 40\<rparr>,
         \<lparr>todo_id = 3, title = ''Ship'', description = None, status = TODO,
          position = 0, createdAt = 25, updatedAt = 25\<rparr>],
       next_id = 4\<rparr>)"
  by code_simp

text \<open>
  A move whose position has a fractional part, under the two readings of such a number:
  refused by the client, or stored without its fractional part.
\<close>

lemma move_fractional_position_example:
  "TodoController_moveTask refuse_fraction 40 2 (JObject [(''position'', JNumber (3 / 2))])
     example_board = (Inl PrismaClientValidationError, example_board)"
  "map position (rows (snd (TodoController_moveTask truncate_fraction 40 2
     (JObject [(''position'', JNumber (3 / 2))]) example_board))) = [0, 1, 0]"
  "map position (rows (snd (TodoController_moveTask truncate_fraction 40 2
     (JObject [(''position'', JNumber (- 3 / 2))]) example_board))) = [0, - 1, 0]"
  by code_simp+

text \<open>
  C3, as the claim states it, fails: moving row 2 of the example board to position \<open>-1\<close>
  of \<open>DONE\<close> succeeds and rewrites the row.
\<close>

theorem move_negative_position_counterexample:
  "TodoController_moveTask refuse_fraction 40 2
     (JObject [(''status'', JString ''DONE''), (''position'', JNumber (- 1))]) example_board =
     (Inr \<lparr>todo_id = 2, title = ''Review'', description = Some ''second pass'', status = DONE,
            position = - 1, createdAt = 20, updatedAt = 40\<rparr>,
      \<lparr>rows =
        [\<lparr>todo_id = 1, title = ''Write spec'', description = None, status = IN_PROGRESS,
          position = 0, createdAt = 10, updatedAt = 30\<rparr>,
         \<lparr>todo_id = 2, title = ''Review'', description = Some ''second pass'', status = DONE,
          position = - 1, createdAt = 20, updatedAt = 40\<rparr>,
         \<lparr>todo_id = 3, title = ''Ship'', description = None, status = TODO,
          position = 0, createdAt = 25, updatedAt = 25\<rparr>],
       next_id = 4\<rparr>)"
  by code_simp

text \<open>
  C3, amended. A move whose body gives as its status a string that is none of the three
  labels raises the validation error of the persistence client and leaves the database
  as it was, whatever the id and the rest of the body. A move of an existing row whose
  body gives a label as its status and a negative integer within the range of the column
  as its position succeeds, and the row is stored with that position. (Nothing is said
  of a body without a status: the code does not refuse it.)
\<close>

theorem move_validation:
  "(property_of props ''status'' = Some (JString l) \<and> l \<notin> set TaskStatus_labels \<longrightarrow>
      TodoController_moveTask fraction now i (JObject props) db = (Inl PrismaClientValidationError, db))
   \<and> (i \<in> todo_id ` set (rows db) \<and> int4 i
        \<and> property_of props ''status'' = Some (JString l) \<and> l \<in> set TaskStatus_labels
        \<and> property_of props ''position'' = Some (JNumber (of_int p)) \<and> p < 0 \<and> int4 p \<longrightarrow>
        (\<exists>u db'. TodoController_moveTask fraction now i (JObject props) db = (Inr u, db')
           \<and> todo_id u = i \<and> position u = p \<and> u \<in> set (rows db')))"
proof (intro conjI impI)
  assume a: "property_of props ''status'' = Some (JString l) \<and> l \<notin> set TaskStatus_labels"
  then have "TaskStatus_of_label l = None"
    by (simp add: TaskStatus_of_label_None_iff)
  with a show "TodoController_moveTask fraction now i (JObject props) db = (Inl PrismaClientValidationError, db)"
    by (simp add: move_object_body TodoService_updateStatus_def prisma_todo_update_def)
next
  assume a: "i \<in> todo_id ` set (rows db) \<and> int4 i
        \<and> property_of props ''status'' = Some (JString l) \<and> l \<in> set TaskStatus_labels
        \<and> property_of props ''position'' = Some (JNumber (of_int p)) \<and> p < 0 \<and> int4 p"
  then obtain s where s: "TaskStatus_of_label l = Some s"
    using TaskStatus_of_label_None_iff [of l] by auto
  from a s updateStatus_found [of i db l s p fraction now]
  obtain k where k: "k < length (rows db)" "todo_id (rows db ! k) = i"
    "TodoService_updateStatus fraction now i (Some (JString l)) (Some (JNumber (of_int p))) db
       = (Inr ((rows db ! k)\<lparr>status := s, position := p, updatedAt := now\<rparr>),
          db\<lparr>rows := (rows db)[k := (rows db ! k)\<lparr>status := s, position := p, updatedAt := now\<rparr>]\<rparr>)"
    by blast
  have "TodoController_moveTask fraction now i (JObject props) db
          = TodoService_updateStatus fraction now i (Some (JString l)) (Some (JNumber (of_int p))) db"
    using a by (simp add: move_object_body)
  then show "\<exists>u db'. TodoController_moveTask fraction now i (JObject props) db = (Inr u, db')
           \<and> todo_id u = i \<and> position u = p \<and> u \<in> set (rows db')"
    unfolding k(3) using k(1,2)
    by (auto simp: set_update_memI)
qed

theorem move_validation_witness:
  "TodoController_moveTask refuse_fraction 40 2
     (JObject [(''status'', JString ''Archived''), (''position'', JNumber 0)]) example_board
     = (Inl PrismaClientValidationError, example_board)
   \<and> (\<exists>u db'. TodoController_moveTask refuse_fraction 40 2
          (JObject [(''status'', JString ''DONE''), (''position'', JNumber (of_int (- 1)))])
          example_board
          = (Inr u, db')
        \<and> todo_id u = 2 \<and> position u = - 1 \<and> u \<in> set (rows db'))"
proof -
  let ?bad = "[(''status'', JString ''Archived''), (''position'', JNumber 0)]"
  let ?neg = "[(''status'', JString ''DONE''), (''position'', JNumber (of_int (- 1)))]"
  have h1: "property_of ?bad ''status'' = Some (JString ''Archived'')
            \<and> ''Archived'' \<notin> set TaskStatus_labels"
    by (simp add: TaskStatus_labels_def)
  have h2: "2 \<in> todo_id ` set (rows example_board) \<and> int4 2
            \<and> property_of ?neg ''status'' = Some (JString ''DONE'') \<and> ''DONE'' \<in> set TaskStatus_labels
            \<and> property_of ?neg ''position'' = Some (JNumber (of_int (- 1))) \<and> (- 1 :: int) < 0
            \<and> int4 (- 1)"
    by (simp add: example_board_def int4_def TaskStatus_labels_def)
  from move_validation [of ?bad "''Archived''" refuse_fraction 40 2 example_board] h1
  have a: "TodoController_moveTask refuse_fraction 40 2 (JObject ?bad) example_board
             = (Inl PrismaClientValidationError, example_board)"
    by blast
  from move_validation [of ?neg "''DONE''" refuse_fraction 40 2 example_board "- 1"] h2
  have b: "\<exists>u db'. TodoController_moveTask refuse_fraction 40 2 (JObject ?neg) example_board = (Inr u, db')
        \<and> todo_id u = 2 \<and> position u = - 1 \<and> u \<in> set (rows db')"
    by blast
  from a b show ?thesis by blast
qed

text \<open>
  C4, as the claim states it, fails: an id beyond the range of the id column is in no
  table, and removing it is refused as out of range, not as not found.
\<close>

theorem remove_out_of_range_counterexample:
  "TodoService_remove 2147483648 example_board
     = (Inl (PrismaClientKnownRequestError ''P2020''), example_board)"
  by code_simp

text \<open>
  C4, amended. For an id within the 32-bit range of the id column that no row has,
  \<open>updateStatus\<close> (with a label and an integer of the column's range) and \<open>remove\<close>
  raise the known request error \<^verbatim>\<open>P2025\<close>, record not found, and return the database
  as it was. For an id outside that range \<open>remove\<close> is refused with another error than
  that one and \<open>updateStatus\<close> is refused too, and both return the database as it was. Whenever
  either of them raises an error, whatever its arguments, the database is as it was.
  After a \<open>remove\<close> that succeeded on a table whose ids are distinct, a second
  \<open>remove\<close> of the same id raises the not-found error.
\<close>

theorem missing_id_not_found:
  "(i \<notin> todo_id ` set (rows db) \<and> int4 i \<longrightarrow>
      (l \<in> set TaskStatus_labels \<and> int4 p \<longrightarrow>
         TodoService_updateStatus fraction now i (Some (JString l)) (Some (JNumber (of_int p))) db
           = (Inl (PrismaClientKnownRequestError ''P2025''), db))
      \<and> TodoService_remove i db = (Inl (PrismaClientKnownRequestError ''P2025''), db))
   \<and> (\<not> int4 i \<longrightarrow>
        (\<exists>e. TodoService_updateStatus fraction now i st ps db = (Inl e, db))
        \<and> (\<exists>e. TodoService_remove i db = (Inl e, db)
               \<and> e \<noteq> PrismaClientKnownRequestError ''P2025''))
   \<and> (\<forall>e. fst (TodoService_updateStatus fraction now i st ps db) = Inl e \<longrightarrow>
          snd (TodoService_updateStatus fraction now i st ps db) = db)
   \<and> (\<forall>e. fst (TodoService_remove i db) = Inl e \<longrightarrow> snd (TodoService_remove i db) = db)
   \<and> (distinct (map todo_id (rows db)) \<and> TodoService_remove i db = (Inr u, db') \<longrightarrow>
        TodoService_remove i db' = (Inl (PrismaClientKnownRequestError ''P2025''), db'))"
proof (intro conjI impI allI)
  assume "i \<notin> todo_id ` set (rows db) \<and> int4 i"
  then show "TodoService_remove i db = (Inl (PrismaClientKnownRequestError ''P2025''), db)"
    by (simp add: remove_not_found)
next
  assume "i \<notin> todo_id ` set (rows db) \<and> int4 i" "l \<in> set TaskStatus_labels \<and> int4 p"
  then show "TodoService_updateStatus fraction now i (Some (JString l)) (Some (JNumber (of_int p))) db
               = (Inl (PrismaClientKnownRequestError ''P2025''), db)"
    by (simp add: updateStatus_not_found)
next
  assume "\<not> int4 i"
  then show "\<exists>e. TodoService_updateStatus fraction now i st ps db = (Inl e, db)"
    by (rule updateStatus_out_of_range)
next
  assume "\<not> int4 i"
  then show "\<exists>e. TodoService_remove i db = (Inl e, db)
               \<and> e \<noteq> PrismaClientKnownRequestError ''P2025''"
    by (rule remove_out_of_range)
next
  fix e
  assume "fst (TodoService_updateStatus fraction now i st ps db) = Inl e"
  then show "snd (TodoService_updateStatus fraction now i st ps db) = db"
    using updateStatus_Inl [of fraction now i st ps db e "snd (TodoService_updateStatus fraction now i st ps db)"]
    by (metis prod.collapse)
next
  fix e
  assume "fst (TodoService_remove i db) = Inl e"
  then show "snd (TodoService_remove i db) = db"
    using remove_Inl [of i db e "snd (TodoService_remove i db)"] by (metis prod.collapse)
next
  assume a: "distinct (map todo_id (rows db)) \<and> TodoService_remove i db = (Inr u, db')"
  then have d: "int4 i" "delete_where i (rows db) = Inr (u, rows db')"
    using remove_Inr [of i db u db'] by simp_all
  with a have "i \<notin> todo_id ` set (rows db')"
    using delete_where_gone [of i "rows db" u "rows db'"] by simp
  with d(1) show "TodoService_remove i db' = (Inl (PrismaClientKnownRequestError ''P2025''), db')"
    by (simp add: remove_not_found)
qed

lemma example_remove:
  "TodoService_remove 2 example_board =
     (Inr \<lparr>todo_id = 2, title = ''Review'', description = Some ''second pass'', status = TODO,
            position = 1, createdAt = 20, updatedAt = 20\<rparr>,
      \<lparr>rows =
        [\<lparr>todo_id = 1, title = ''Write spec'', description = None, status = IN_PROGRESS,
          position = 0, createdAt = 10, updatedAt = 30\<rparr>,
         \<lparr>todo_id = 3, title = ''Ship'', description = None, status = TODO,
          position = 0, createdAt = 25, updatedAt = 25\<rparr>],
       next_id = 4\<rparr>)"
  by code_simp

theorem missing_id_not_found_witness:
  "TodoService_updateStatus refuse_fraction 40 7 (Some (JString ''DONE'')) (Some (JNumber (of_int 0))) example_board
     = (Inl (PrismaClientKnownRequestError ''P2025''), example_board)
   \<and> TodoService_remove 7 example_board
     = (Inl (PrismaClientKnownRequestError ''P2025''), example_board)
   \<and> (\<exists>e. TodoService_updateStatus refuse_fraction 40 2147483648 (Some (JString ''DONE'')) None example_board
            = (Inl e, example_board))
   \<and> (\<exists>e. TodoService_remove 2147483648 example_board = (Inl e, example_board)
          \<and> e \<noteq> PrismaClientKnownRequestError ''P2025'')
   \<and> snd (TodoService_updateStatus refuse_fraction 40 2 (Some (JString ''Archived'')) None example_board)
     = example_board
   \<and> snd (TodoService_remove 7 example_board) = example_board
   \<and> TodoService_remove 2 (snd (TodoService_remove 2 example_board))
     = (Inl (PrismaClientKnownRequestError ''P2025''), snd (TodoService_remove 2 example_board))"
proof -
  have h1: "7 \<notin> todo_id ` set (rows example_board) \<and> int4 7"
    by (simp add: example_board_def int4_def)
  have h2: "''DONE'' \<in> set TaskStatus_labels \<and> int4 0"
    by (simp add: TaskStatus_labels_def int4_def)
  have h3: "distinct (map todo_id (rows example_board))"
    by (simp add: example_board_def)
  have h4: "TodoService_remove 2 example_board
              = (fst (TodoService_remove 2 example_board), snd (TodoService_remove 2 example_board))"
    by simp
  have h5: "fst (TodoService_remove 2 example_board) = Inr (projr (fst (TodoService_remove 2 example_board)))"
    by (simp add: example_remove)
  have h6: "\<not> int4 2147483648" by (simp add: int4_def)
  have h7: "fst (TodoService_updateStatus refuse_fraction 40 2 (Some (JString ''Archived'')) None example_board)
              = Inl PrismaClientValidationError"
    by code_simp
  have h8: "fst (TodoService_remove 7 example_board) = Inl (PrismaClientKnownRequestError ''P2025'')"
    by code_simp
  from missing_id_not_found [of 7 example_board "''DONE''" 0 refuse_fraction 40] h1 h2
  have a: "TodoService_updateStatus refuse_fraction 40 7 (Some (JString ''DONE'')) (Some (JNumber (of_int 0))) example_board
     = (Inl (PrismaClientKnownRequestError ''P2025''), example_board)
   \<and> TodoService_remove 7 example_board
     = (Inl (PrismaClientKnownRequestError ''P2025''), example_board)"
    by blast
  from missing_id_not_found [of 2147483648 example_board _ _ refuse_fraction 40 "Some (JString ''DONE'')" None] h6
  have b: "(\<exists>e. TodoService_updateStatus refuse_fraction 40 2147483648 (Some (JString ''DONE'')) None example_board
            = (Inl e, example_board))
   \<and> (\<exists>e. TodoService_remove 2147483648 example_board = (Inl e, example_board)
          \<and> e \<noteq> PrismaClientKnownRequestError ''P2025'')"
    by blast
  from missing_id_not_found [of 2 example_board _ _ refuse_fraction 40 "Some (JString ''Archived'')" None] h7
  have c: "snd (TodoService_updateStatus refuse_fraction 40 2 (Some (JString ''Archived'')) None example_board)
     = example_board"
    by blast
  from missing_id_not_found [of 7 example_board] h8
  have d: "snd (TodoService_remove 7 example_board) = example_board"
    by blast
  from missing_id_not_found [of 2 example_board _ _ _ _ _ _ "projr (fst (TodoService_remove 2 example_board))"
      "snd (TodoService_remove 2 example_board)"] h3 h4 h5
  have e: "TodoService_remove 2 (snd (TodoService_remove 2 example_board))
     = (Inl (PrismaClientKnownRequestError ''P2025''), snd (TodoService_remove 2 example_board))"
    by simp
  from a b c d e show ?thesis by blast
qed



section \<open>Identifiers\<close>

lemma handle_created:
  assumes "handle fraction now rq db = (resp, db')"
  shows "(created_id rq resp = [] \<and> next_id db' = next_id db)
         \<or> (created_id rq resp = [next_id db] \<and> next_id db' = next_id db + 1)"
proof (cases rq)
  case (Create body)
  obtain res d where c: "TodoController_create now body db = (res, d)" by force
  with assms Create have "resp = Row res" "d = db'" by auto
  with create_result [OF c] Create show ?thesis by auto
next
  case (FindAll tie)
  with assms show ?thesis
    by (auto simp: TodoController_findAll_def TodoService_findAll_def prisma_todo_findMany_def)
next
  case (MoveTask i body)
  obtain res d where c: "TodoController_moveTask fraction now i body db = (res, d)" by force
  with assms MoveTask have "resp = Row res" "d = db'" by auto
  with move_result [OF c] MoveTask show ?thesis by auto
next
  case (Remove i)
  obtain res d where c: "TodoController_remove i db = (res, d)" by force
  with assms Remove have "resp = Row res" "d = db'" by auto
  with remove_result [OF c] Remove show ?thesis by auto
qed

lemma created_ids_increasing:
  "sorted_wrt (<) (created_ids fraction reqs db) \<and> (\<forall>i \<in> set (created_ids fraction reqs db). next_id db \<le> i)"
proof (induction reqs arbitrary: db)
  case Nil
  show ?case by simp
next
  case (Cons a reqs)
  obtain now rq where a: "a = (now, rq)" by (cases a)
  obtain resp db' where h: "handle fraction now rq db = (resp, db')" by force
  have ids: "created_ids fraction (a # reqs) db = created_id rq resp @ created_ids fraction reqs db'"
    using a h by simp
  from Cons.IH [of db'] have
    IH: "sorted_wrt (<) (created_ids fraction reqs db')" "\<forall>i \<in> set (created_ids fraction reqs db'). next_id db' \<le> i"
    by simp_all
  from handle_created [OF h] show ?case
  proof
    assume "created_id rq resp = [] \<and> next_id db' = next_id db"
    with ids IH show ?thesis by simp
  next
    assume "created_id rq resp = [next_id db] \<and> next_id db' = next_id db + 1"
    with ids IH show ?thesis by (auto simp: sorted_wrt_append)
  qed
qed

lemma created_ids_fresh:
  assumes "primary_key db"
  shows "distinct (map todo_id (rows db) @ created_ids fraction reqs db)"
proof -
  from created_ids_increasing [of fraction reqs db] have
    inc: "sorted_wrt (<) (created_ids fraction reqs db)" and lo: "\<forall>i \<in> set (created_ids fraction reqs db). next_id db \<le> i"
    by simp_all
  from inc have "distinct (created_ids fraction reqs db)"
    by (simp add: strict_sorted_iff)
  moreover from assms have "distinct (map todo_id (rows db))" "\<forall>i \<in> set (map todo_id (rows db)). i < next_id db"
    by (simp_all add: primary_key_def list_all_iff)
  ultimately show ?thesis using lo by fastforce
qed

lemma primary_key_empty: "primary_key empty_database"
  by (simp add: primary_key_def empty_database_def)

lemma primary_key_handle:
  assumes "primary_key db"
  shows "primary_key (snd (handle fraction now rq db))"
proof (cases rq)
  case (Create body)
  obtain res d where c: "TodoController_create now body db = (res, d)" by force
  from assms have pk: "distinct (map todo_id (rows db))" "\<forall>i \<in> set (map todo_id (rows db)). i < next_id db"
    by (simp_all add: primary_key_def list_all_iff)
  from create_result [OF c] have "primary_key d"
  proof
    assume "\<exists>e. res = Inl e \<and> d = db"
    with assms show ?thesis by auto
  next
    assume "\<exists>r. res = Inr r \<and> todo_id r = next_id db
              \<and> d = db\<lparr>rows := rows db @ [r], next_id := next_id db + 1\<rparr>"
    then obtain r where r: "todo_id r = next_id db"
      "d = db\<lparr>rows := rows db @ [r], next_id := next_id db + 1\<rparr>"
      by auto
    then have d: "map todo_id (rows d) = map todo_id (rows db) @ [next_id db]"
      "next_id d = next_id db + 1"
      by simp_all
    from pk(2) have "next_id db \<notin> set (map todo_id (rows db))" by force
    moreover from pk(2) have "\<forall>i \<in> set (map todo_id (rows db)). i < next_id db + 1" by force
    ultimately show ?thesis
      unfolding primary_key_def d list_all_iff using pk(1) by simp
  qed
  with c Create show ?thesis by simp
next
  case (FindAll tie)
  with assms show ?thesis
    by (simp add: TodoController_findAll_def TodoService_findAll_def prisma_todo_findMany_def)
next
  case (MoveTask i body)
  obtain res d where c: "TodoController_moveTask fraction now i body db = (res, d)" by force
  from move_result [OF c] have "next_id d = next_id db" "map todo_id (rows d) = map todo_id (rows db)"
    by simp_all
  then have "primary_key d" using assms by (simp add: primary_key_def)
  with c MoveTask show ?thesis by simp
next
  case (Remove i)
  obtain res d where c: "TodoController_remove i db = (res, d)" by force
  from remove_result [OF c] have n: "next_id d = next_id db" and m: "mset (rows d) \<subseteq># mset (rows db)"
    by simp_all
  from m have sub: "mset (map todo_id (rows d)) \<subseteq># mset (map todo_id (rows db))"
    using image_mset_subseteq_mono [of "mset (rows d)" "mset (rows db)" todo_id] by simp
  from assms have pk: "distinct (map todo_id (rows db))" "\<forall>i \<in> set (map todo_id (rows db)). i < next_id db"
    by (simp_all add: primary_key_def list_all_iff)
  have "count (mset (map todo_id (rows d))) x \<le> 1" for x
    using mset_subset_eq_count [OF sub, of x] pk(1) distinct_count_atmost_1 [of "map todo_id (rows db)"]
    by (auto split: if_splits)
  then have "distinct (map todo_id (rows d))"
    unfolding distinct_count_atmost_1 by (metis count_mset_0_iff le_antisym less_one not_less)
  moreover from sub have "set (map todo_id (rows d)) \<subseteq> set (map todo_id (rows db))"
    using set_mset_mono [OF sub] by simp
  then have "\<forall>i \<in> set (map todo_id (rows d)). i < next_id d" using pk(2) n by auto
  ultimately have "primary_key d" by (simp add: primary_key_def list_all_iff)
  with c Remove show ?thesis by simp
qed

lemma primary_key_serve: "primary_key db \<Longrightarrow> primary_key (serve fraction reqs db)"
proof (induction reqs arbitrary: db)
  case Nil
  then show ?case by simp
next
  case (Cons a reqs)
  obtain now rq where "a = (now, rq)" by (cases a)
  with Cons show ?case by (simp add: primary_key_handle)
qed

text \<open>
  C9. From a table that respects its primary key, the ids of the rows that the create
  requests of any history return are distinct from one another and from every id already
  in the table, whatever requests come between them. A move leaves the id of every row
  of the table as it was and returns a row with the id it was asked for; a remove leaves
  only rows that were in the table before.
\<close>

theorem ids_unique_and_stable:
  "(primary_key db \<longrightarrow> distinct (map todo_id (rows db) @ created_ids fraction reqs db))
   \<and> map todo_id (rows (snd (TodoController_moveTask fraction now i body db))) = map todo_id (rows db)
   \<and> (\<forall>u. fst (TodoController_moveTask fraction now i body db) = Inr u \<longrightarrow> todo_id u = i)
   \<and> mset (rows (snd (TodoController_remove j db))) \<subseteq># mset (rows db)"
proof (intro conjI impI allI)
  assume "primary_key db"
  then show "distinct (map todo_id (rows db) @ created_ids fraction reqs db)"
    by (rule created_ids_fresh)
next
  show "map todo_id (rows (snd (TodoController_moveTask fraction now i body db))) = map todo_id (rows db)"
    using move_result [of fraction now i body db "fst (TodoController_moveTask fraction now i body db)"
        "snd (TodoController_moveTask fraction now i body db)"]
    by simp
next
  fix u
  assume "fst (TodoController_moveTask fraction now i body db) = Inr u"
  then have "TodoController_moveTask fraction now i body db
               = (Inr u, snd (TodoController_moveTask fraction now i body db))"
    by (metis prod.collapse)
  from move_result [OF this] show "todo_id u = i" by simp
next
  show "mset (rows (snd (TodoController_remove j db))) \<subseteq># mset (rows db)"
    using remove_result [of j db "fst (TodoController_remove j db)" "snd (TodoController_remove j db)"]
    by simp
qed

lemma example_created: "created_ids refuse_fraction example_history empty_database = [1, 2, 3]"
  by code_simp

theorem ids_unique_and_stable_witness:
  "primary_key empty_database
   \<and> distinct (map todo_id (rows empty_database) @ created_ids refuse_fraction example_history empty_database)
   \<and> created_ids refuse_fraction example_history empty_database = [1, 2, 3]
   \<and> fst (TodoController_moveTask refuse_fraction 40 2 (JObject [(''status'', JString ''DONE''), (''position'', JNumber 5)]) example_board)
       = Inr (projr (fst (TodoController_moveTask refuse_fraction 40 2 (JObject [(''status'', JString ''DONE''), (''position'', JNumber 5)]) example_board)))
   \<and> todo_id (projr (fst (TodoController_moveTask refuse_fraction 40 2 (JObject [(''status'', JString ''DONE''), (''position'', JNumber 5)]) example_board))) = 2"
proof -
  have h1: "primary_key empty_database" by (simp add: primary_key_def empty_database_def)
  have h2: "fst (TodoController_moveTask refuse_fraction 40 2 (JObject [(''status'', JString ''DONE''), (''position'', JNumber 5)]) example_board)
       = Inr (projr (fst (TodoController_moveTask refuse_fraction 40 2 (JObject [(''status'', JString ''DONE''), (''position'', JNumber 5)]) example_board)))"
    by code_simp
  from ids_unique_and_stable [of empty_database refuse_fraction example_history]
  have a: "distinct (map todo_id (rows empty_database) @ created_ids refuse_fraction example_history empty_database)"
    using h1 by blast
  from ids_unique_and_stable [of example_board refuse_fraction _ 40 2 "(JObject [(''status'', JString ''DONE''), (''position'', JNumber 5)])"]
  have b: "todo_id (projr (fst (TodoController_moveTask refuse_fraction 40 2 (JObject [(''status'', JString ''DONE''), (''position'', JNumber 5)]) example_board))) = 2"
    using h2 by blast
  from h1 h2 a b example_created show ?thesis by blast
qed

section \<open>The response envelope\<close>

text \<open>
  C10. Every envelope the interceptor emits has \<open>success\<close> true; it carries the value
  of the handler and the clock reading of its emission. An exception of the handler is
  passed on as it is, without an envelope.
\<close>

theorem envelope_success:
  "(\<forall>e \<in> set (emitted (TransformInterceptor_intercept next_handle)). success (snd e) = True)
   \<and> map (\<lambda>e. (fst e, data (snd e))) (emitted (TransformInterceptor_intercept next_handle))
       = emitted next_handle
   \<and> map (\<lambda>e. timestamp (snd e)) (emitted (TransformInterceptor_intercept next_handle))
       = map fst (emitted next_handle)
   \<and> failure (TransformInterceptor_intercept next_handle) = failure next_handle"
  by (auto simp: TransformInterceptor_intercept_def rx_map_def intro: map_idI)

theorem envelope_success_witness:
  "(3, \<lparr>success = True, data = ''ok'', timestamp = 3\<rparr>)
     \<in> set (emitted (TransformInterceptor_intercept \<lparr>emitted = [(3, ''ok'')], failure = None\<rparr>))
   \<and> success (snd (3 :: DateTime, \<lparr>success = True, data = ''ok'', timestamp = 3 :: DateTime\<rparr>)) = True
   \<and> failure (TransformInterceptor_intercept
        \<lparr>emitted = ([] :: (DateTime \<times> string) list),
         failure = Some (PrismaClientKnownRequestError ''P2025'')\<rparr>)
      = Some (PrismaClientKnownRequestError ''P2025'')"
proof -
  have h: "(3, \<lparr>success = True, data = ''ok'', timestamp = 3\<rparr>)
     \<in> set (emitted (TransformInterceptor_intercept \<lparr>emitted = [(3, ''ok'')], failure = None\<rparr>))"
    by (simp add: TransformInterceptor_intercept_def rx_map_def)
  from envelope_success [of "\<lparr>emitted = [(3, ''ok'')], failure = None\<rparr>"] h
  have a: "success (snd (3 :: DateTime, \<lparr>success = True, data = ''ok'', timestamp = 3 :: DateTime\<rparr>)) = True"
    by blast
  from envelope_success [of "\<lparr>emitted = ([] :: (DateTime \<times> string) list),
         failure = Some (PrismaClientKnownRequestError ''P2025'')\<rparr>"]
  have b: "failure (TransformInterceptor_intercept
        \<lparr>emitted = ([] :: (DateTime \<times> string) list),
         failure = Some (PrismaClientKnownRequestError ''P2025'')\<rparr>)
      = Some (PrismaClientKnownRequestError ''P2025'')"
    by simp
  from h a b show ?thesis by blast
qed

end
